theory Spec2Isabelle
  imports Main
begin

section \<open>Go standard library functions the client calls\<close>

text \<open>
  A Go string is a sequence of bytes; \<^typ>\<open>string\<close> is a list of 8-bit characters, so
  the two agree and \<^const>\<open>length\<close> is Go's \<open>len\<close>.
\<close>

subsection \<open>Package strings\<close>

text \<open>
  \<open>strings.TrimSpace\<close> removes leading and trailing white space as \<open>unicode.IsSpace\<close>
  defines it. On UTF-8 bytes these are the six ASCII bytes tab, line feed, vertical tab,
  form feed, carriage return and space, and the encodings of U+0085, U+00A0, U+1680,
  U+2000 to U+200A, U+2028, U+2029, U+202F, U+205F and U+3000.
\<close>

definition white_space :: "string list" where
  "white_space =
     [[CHR 0x09], [CHR 0x0A], [CHR 0x0B], [CHR 0x0C], [CHR 0x0D], [CHR 0x20],
      [CHR 0xC2, CHR 0x85], [CHR 0xC2, CHR 0xA0], [CHR 0xE1, CHR 0x9A, CHR 0x80],
      [CHR 0xE2, CHR 0x80, CHR 0x80], [CHR 0xE2, CHR 0x80, CHR 0x81],
      [CHR 0xE2, CHR 0x80, CHR 0x82], [CHR 0xE2, CHR 0x80, CHR 0x83],
      [CHR 0xE2, CHR 0x80, CHR 0x84], [CHR 0xE2, CHR 0x80, CHR 0x85],
      [CHR 0xE2, CHR 0x80, CHR 0x86], [CHR 0xE2, CHR 0x80, CHR 0x87],
      [CHR 0xE2, CHR 0x80, CHR 0x88], [CHR 0xE2, CHR 0x80, CHR 0x89],
      [CHR 0xE2, CHR 0x80, CHR 0x8A], [CHR 0xE2, CHR 0x80, CHR 0xA8],
      [CHR 0xE2, CHR 0x80, CHR 0xA9], [CHR 0xE2, CHR 0x80, CHR 0xAF],
      [CHR 0xE2, CHR 0x81, CHR 0x9F], [CHR 0xE3, CHR 0x80, CHR 0x80]]"

definition HasPrefix :: "string \<Rightarrow> string \<Rightarrow> bool" where
  "HasPrefix s p = (take (length p) s = p)"

definition HasSuffix :: "string \<Rightarrow> string \<Rightarrow> bool" where
  "HasSuffix s p = (length p \<le> length s \<and> drop (length s - length p) s = p)"

text \<open>The width in bytes of the white-space character a string starts (ends) with, 0 if none.\<close>

definition space_width_left :: "string \<Rightarrow> nat" where
  "space_width_left s = (case find (HasPrefix s) white_space of None \<Rightarrow> 0 | Some sp \<Rightarrow> length sp)"

definition space_width_right :: "string \<Rightarrow> nat" where
  "space_width_right s = (case find (HasSuffix s) white_space of None \<Rightarrow> 0 | Some sp \<Rightarrow> length sp)"

function TrimLeftSpace :: "string \<Rightarrow> string" where
  "TrimLeftSpace s =
     (if space_width_left s = 0 then s else TrimLeftSpace (drop (space_width_left s) s))"
  by pat_completeness auto
termination
proof (relation "measure length")
  fix s :: string
  assume "space_width_left s \<noteq> 0"
  moreover have "space_width_left s \<le> length s"
    by (auto simp: space_width_left_def HasPrefix_def find_Some_iff split: option.splits)
       (metis length_take min.cobounded1)
  ultimately show "(drop (space_width_left s) s, s) \<in> measure length" by simp
qed simp

declare TrimLeftSpace.simps [simp del]

function TrimRightSpace :: "string \<Rightarrow> string" where
  "TrimRightSpace s =
     (if space_width_right s = 0 then s
      else TrimRightSpace (take (length s - space_width_right s) s))"
  by pat_completeness auto
termination
proof (relation "measure length")
  fix s :: string
  assume "space_width_right s \<noteq> 0"
  moreover have "space_width_right s \<le> length s"
    by (auto simp: space_width_right_def HasSuffix_def find_Some_iff split: option.splits)
  ultimately show "(take (length s - space_width_right s) s, s) \<in> measure length" by simp
qed simp

declare TrimRightSpace.simps [simp del]

definition TrimSpace :: "string \<Rightarrow> string" where
  "TrimSpace s = TrimRightSpace (TrimLeftSpace s)"

definition TrimPrefix :: "string \<Rightarrow> string \<Rightarrow> string" where
  "TrimPrefix s p = (if HasPrefix s p then drop (length p) s else s)"

text \<open>
  \<open>strings.ReplaceAll(s, old, new)\<close> for a non-empty \<open>old\<close> (the client only passes the
  literals \<open><br/>\<close>, \<open><br>\<close> and \<open>+\<close>): the non-overlapping occurrences, left to right.
\<close>

function ReplaceAll :: "string \<Rightarrow> string \<Rightarrow> string \<Rightarrow> string" where
  "ReplaceAll s old new =
     (if s = [] \<or> old = [] then s
      else if HasPrefix s old then new @ ReplaceAll (drop (length old) s) old new
      else hd s # ReplaceAll (tl s) old new)"
  by pat_completeness auto
termination
  by (relation "measure (\<lambda>(s, old, new). length s)") auto

declare ReplaceAll.simps [simp del]

text \<open>\<open>strings.Split(s, "\n")\<close>: the pieces between line feeds; one (empty) piece for \<open>""\<close>.\<close>

fun Split_lines :: "string \<Rightarrow> string list" where
  "Split_lines [] = [[]]"
| "Split_lines (c # cs) =
     (if c = CHR 0x0A then [] # Split_lines cs
      else (case Split_lines cs of [] \<Rightarrow> [[c]] | l # ls \<Rightarrow> (c # l) # ls))"

text \<open>\<open>strings.Contains(s, substr)\<close>.\<close>

fun Contains :: "string \<Rightarrow> string \<Rightarrow> bool" where
  "Contains [] substr = (substr = [])"
| "Contains (c # cs) substr = (HasPrefix (c # cs) substr \<or> Contains cs substr)"

subsection \<open>Package strconv\<close>

definition is_digit :: "char \<Rightarrow> bool" where
  "is_digit c = (48 \<le> (of_char c :: nat) \<and> (of_char c :: nat) \<le> 57)"

definition digits_value :: "string \<Rightarrow> int" where
  "digits_value ds = foldl (\<lambda>n c. 10 * n + ((of_char c :: int) - 48)) 0 ds"

text \<open>
  \<open>strconv.Atoi\<close> on a 64-bit platform: an optional sign, then one or more decimal digits
  and nothing else; a value outside the range of \<open>int\<close> is an error. \<open>None\<close> is the error.
\<close>

definition Atoi :: "string \<Rightarrow> int option" where
  "Atoi s =
     (let neg = (s \<noteq> [] \<and> hd s = CHR ''-'');
          ds = (if s \<noteq> [] \<and> (hd s = CHR ''-'' \<or> hd s = CHR ''+'') then tl s else s)
      in if ds = [] \<or> \<not> list_all is_digit ds then None
         else let v = (if neg then - digits_value ds else digits_value ds)
              in if v < - (2 ^ 63) \<or> 2 ^ 63 - 1 < v then None else Some v)"

text \<open>\<open>strconv.Itoa\<close> and the verb \<open>%d\<close>: the decimal numeral, with a minus sign if negative.\<close>

function decimal :: "int \<Rightarrow> string" where
  "decimal n =
     (if n < 10 then [char_of (48 + n)] else decimal (n div 10) @ [char_of (48 + n mod 10)])"
  by pat_completeness auto
termination
  by (relation "measure nat") auto

declare decimal.simps [simp del]

definition Itoa :: "int \<Rightarrow> string" where
  "Itoa i = (if i < 0 then CHR ''-'' # decimal (- i) else decimal i)"

subsection \<open>Package net/url\<close>

definition upperhex :: "nat \<Rightarrow> char" where
  "upperhex n = (''0123456789ABCDEF'' ! n)"

text \<open>
  \<open>shouldEscape(c, encodeQueryComponent)\<close> is false exactly for the ASCII letters, the
  digits and the four marks \<open>-\<close>, \<open>_\<close>, \<open>.\<close> and \<open>~\<close>.
\<close>

definition shouldEscape :: "char \<Rightarrow> bool" where
  "shouldEscape c =
     (let n = (of_char c :: nat)
      in \<not> ((97 \<le> n \<and> n \<le> 122) \<or> (65 \<le> n \<and> n \<le> 90) \<or> (48 \<le> n \<and> n \<le> 57)
             \<or> c = CHR ''-'' \<or> c = CHR ''_'' \<or> c = CHR ''.'' \<or> c = CHR ''~''))"

text \<open>
  \<open>url.QueryEscape\<close>: a space becomes \<open>+\<close>, any other byte to escape becomes \<open>%\<close> and its
  two upper-case hexadecimal digits.
\<close>

definition escape_byte :: "char \<Rightarrow> string" where
  "escape_byte c =
     (if c = CHR '' '' then ''+''
      else if shouldEscape c
        then [CHR ''%'', upperhex ((of_char c :: nat) div 16), upperhex ((of_char c :: nat) mod 16)]
        else [c])"

definition QueryEscape :: "string \<Rightarrow> string" where
  "QueryEscape s = concat (map escape_byte s)"

text \<open>
  \<open>url.Values\<close> holding one value per key, as a list of pairs in the order the source
  writes them. \<open>Values.Encode\<close> emits \<open>key=value\<close> pairs joined by \<open>&\<close>, both sides
  escaped, in the order of the keys sorted as byte strings.
\<close>

type_synonym Values = "(string \<times> string) list"

fun string_less :: "string \<Rightarrow> string \<Rightarrow> bool" where
  "string_less [] [] = False"
| "string_less [] (d # ds) = True"
| "string_less (c # cs) [] = False"
| "string_less (c # cs) (d # ds) =
     ((of_char c :: nat) < of_char d \<or> (c = d \<and> string_less cs ds))"

fun insert_by_key :: "string \<times> string \<Rightarrow> Values \<Rightarrow> Values" where
  "insert_by_key kv [] = [kv]"
| "insert_by_key kv (x # xs) =
     (if string_less (fst kv) (fst x) then kv # x # xs else x # insert_by_key kv xs)"

definition sort_by_key :: "Values \<Rightarrow> Values" where
  "sort_by_key v = foldr insert_by_key v []"

fun Join :: "string list \<Rightarrow> string \<Rightarrow> string" where
  "Join [] sep = []"
| "Join [x] sep = x"
| "Join (x # y # ys) sep = x @ sep @ Join (y # ys) sep"

definition Values_Encode :: "Values \<Rightarrow> string" where
  "Values_Encode v =
     Join (map (\<lambda>(k, x). QueryEscape k @ ''='' @ QueryEscape x) (sort_by_key v)) ''&''"

subsection \<open>Package regexp\<close>

text \<open>
  The first submatch of the leftmost match of \<open>NachweisNr=(\d+)\<close>: the longest run of
  decimal digits after the first \<open>NachweisNr=\<close> that a digit follows. \<open>None\<close> when the
  expression does not match (\<open>FindStringSubmatch\<close> returns \<open>nil\<close>).
\<close>

fun FindStringSubmatch_NachweisNr :: "string \<Rightarrow> string option" where
  "FindStringSubmatch_NachweisNr [] = None"
| "FindStringSubmatch_NachweisNr (c # cs) =
     (if HasPrefix (c # cs) ''NachweisNr='' \<and> takeWhile is_digit (drop 11 (c # cs)) \<noteq> []
      then Some (takeWhile is_digit (drop 11 (c # cs)))
      else FindStringSubmatch_NachweisNr cs)"

section \<open>Errors, requests, responses and pages\<close>

text \<open>
  A Go \<open>error\<close> value. \<open>Errorf\<close> is \<open>fmt.Errorf\<close> with its format string and arguments
  (verb \<open>%w\<close> wraps an error); the others are errors of the standard library: a failed
  round trip, a failed read of a body, \<open>http.ErrUseLastResponse\<close>, and the error of a
  parser (\<open>url.Parse\<close>, \<open>time.Parse\<close>).
\<close>

datatype error =
    Errorf string "fmt_arg list"
  | TransportError
  | ReadError
  | ErrUseLastResponse
  | ParseError
and fmt_arg = ArgInt int | ArgStr string | ArgErr error

datatype http_method = GET | POST

text \<open>
  \<open>http.Request\<close>. \<open>Cookies\<close> are the cookies the client adds from its jar when it sends
  the request. \<open>Via\<close> is the number of requests that came before this one in the same
  call of the client (\<open>len(via)\<close> in \<open>CheckRedirect\<close>): 0 for a request the program
  itself issues, positive for a request the client makes to follow a redirect.
\<close>

record Request =
  Method :: http_method
  URL :: string
  Header :: "(string \<times> string) list"
  Cookies :: "(string \<times> string) list"
  Body :: string
  Via :: nat

text \<open>
  What goquery's selections give for one matched element: \<open>Text()\<close> and \<open>Html()\<close>.
  \<open>Text()\<close> of a selection is the texts of its elements, concatenated; \<open>Html()\<close> is the
  inner markup of its first element, the empty string when there is none.
\<close>

record element =
  elem_Text :: string
  elem_Html :: string

definition Selection_Text :: "element list \<Rightarrow> string" where
  "Selection_Text sel = concat (map elem_Text sel)"

definition Selection_Html :: "element list \<Rightarrow> string" where
  "Selection_Html sel = (case sel of [] \<Rightarrow> [] | e # _ \<Rightarrow> elem_Html e)"

text \<open>
  A week tile, an element matching \<open>div.mo.NBox\<close>: its \<open>onclick\<close> attribute and the
  selections \<open>div.sKW\<close>, \<open>div.KW\<close> and the \<open>div\<close>s below \<open>div.KW\<close>.
\<close>

record tile =
  onclick :: "string option"
  div_sKW :: "element list"
  div_KW :: "element list"
  div_KW_div :: "element list"

text \<open>
  A day-entry container, an element matching \<open>div.d0.mo\<close>: its \<open>data-seq\<close> attribute and
  the selections \<open>div.row2.d4\<close>, \<open>div.row1.d3\<close> and \<open>div.row7.d5\<close>.
\<close>

record day_entry =
  data_seq :: "string option"
  div_row2_d4 :: "element list"
  div_row1_d3 :: "element list"
  div_row7_d5 :: "element list"

text \<open>An \<open>input\<close> element below \<open>#divSchulfach\<close>: its \<open>data-default\<close> and \<open>value\<close> attributes.\<close>

record subject_input =
  data_default :: "string option"
  input_value :: "string option"

text \<open>
  A parsed document, given by what the client's selectors find in it, in document order:
  the \<open>value\<close> attributes of the three hidden fields \<open>#__VIEWSTATE\<close>,
  \<open>#__VIEWSTATEGENERATOR\<close> and \<open>#__EVENTVALIDATION\<close> (\<open>None\<close> when the field or the
  attribute is absent), the week tiles, the day-entry containers, and the inputs below
  \<open>#divSchulfach\<close> (\<open>None\<close> when no element has that id).
\<close>

record page =
  VIEWSTATE :: "string option"
  VIEWSTATEGENERATOR :: "string option"
  EVENTVALIDATION :: "string option"
  NBox :: "tile list"
  d0_mo :: "day_entry list"
  divSchulfach :: "subject_input list option"

text \<open>
  \<open>http.Response\<close>: the status code, the \<open>Location\<close> header (empty when absent, and
  already resolved against the request's URL), the cookies of its \<open>Set-Cookie\<close> headers,
  and its body: the bytes, whether reading them ends in an error, and the document they
  parse to.
\<close>

record Response =
  StatusCode :: int
  Location :: string
  SetCookies :: "(string \<times> string) list"
  RespBody :: string
  ReadFails :: bool
  Document :: page

definition NewDocumentFromReader :: "Response \<Rightarrow> error + page" where
  "NewDocumentFromReader resp = (if ReadFails resp then Inl ReadError else Inr (Document resp))"

section \<open>The world outside the program\<close>

text \<open>
  The state the operations change: the requests sent so far, oldest first, and the
  cookie jars allocated so far (a jar is addressed by a number below \<open>next_jar\<close>).
\<close>

record world =
  trace :: "Request list"
  jars :: "nat \<Rightarrow> (string \<times> string) list"
  next_jar :: nat

datatype reply = NoReply | Reply Response

text \<open>
  A \<open>time.Time\<close> value, given by the two things the client reads from it:
  \<open>ISOWeek()\<close>, the pair (year, week), and \<open>Format("20060102")\<close>.
\<close>

record Time =
  ISOWeek :: "int \<times> int"
  Format_20060102 :: string

text \<open>
  What the program cannot decide: the remote application, which answers a request
  knowing every request sent before it (or does not answer: a transport failure); the
  clock (\<open>time.Now().Unix()\<close>, given the requests sent so far); whether \<open>url.Parse\<close>
  accepts a string; and what \<open>time.Parse("2006-01-02", s)\<close> makes of a string (\<open>None\<close> is
  its error).
\<close>

record env =
  remote :: "Request list \<Rightarrow> Request \<Rightarrow> reply"
  unix_now :: "Request list \<Rightarrow> int"
  url_Parse_ok :: "string \<Rightarrow> bool"
  time_Parse :: "string \<Rightarrow> Time option"

section \<open>Package net/http: the client\<close>

text \<open>
  \<open>http.Client\<close> with the two fields the program sets. \<open>Jar\<close> is the address of the
  cookie jar, \<open>CheckRedirect\<close> the redirect policy; \<open>None\<close> is Go's \<open>nil\<close>.
\<close>

record Client =
  Jar :: "nat option"
  CheckRedirect :: "(Request \<Rightarrow> Request list \<Rightarrow> error option) option"

definition defaultCheckRedirect :: "Request \<Rightarrow> Request list \<Rightarrow> error option" where
  "defaultCheckRedirect req via =
     (if length via \<ge> 10 then Some (Errorf ''stopped after 10 redirects'' []) else None)"

definition checkRedirect :: "Client \<Rightarrow> Request \<Rightarrow> Request list \<Rightarrow> error option" where
  "checkRedirect c req via =
     (case CheckRedirect c of None \<Rightarrow> defaultCheckRedirect req via | Some fn \<Rightarrow> fn req via)"

text \<open>
  The jar keeps one cookie for each name, in the order in which the names were first
  set: a cookie that is set again takes the new value and keeps its place, a cookie with
  a new name goes to the end (domains, paths and expiry are not modelled).
\<close>

fun jar_set :: "(string \<times> string) list \<Rightarrow> string \<times> string \<Rightarrow> (string \<times> string) list" where
  "jar_set [] kv = [kv]"
| "jar_set (x # xs) kv = (if fst x = fst kv then kv # xs else x # jar_set xs kv)"

definition jar_SetCookies ::
  "(string \<times> string) list \<Rightarrow> (string \<times> string) list \<Rightarrow> (string \<times> string) list" where
  "jar_SetCookies old new = foldl jar_set old new"

text \<open>
  One round trip (\<open>Client.send\<close>): the jar's cookies are added to the request, the request
  goes out (and is recorded in the trace), and the cookies of the answer go into the jar.
\<close>

definition send :: "env \<Rightarrow> Client \<Rightarrow> Request \<Rightarrow> world \<Rightarrow> (error + Response) \<times> world" where
  "send env c req w =
     (let req1 = (case Jar c of None \<Rightarrow> req | Some j \<Rightarrow> req\<lparr>Cookies := jars w j\<rparr>);
          w1 = w\<lparr>trace := trace w @ [req1]\<rparr>
      in case remote env (trace w) req1 of
           NoReply \<Rightarrow> (Inl TransportError, w1)
         | Reply resp \<Rightarrow>
             (Inr resp,
              (case Jar c of
                 None \<Rightarrow> w1
               | Some j \<Rightarrow> w1\<lparr>jars := (jars w1)(j := jar_SetCookies (jars w1 j) (SetCookies resp))\<rparr>)))"

text \<open>
  \<open>redirectBehavior\<close>: \<open>None\<close> when the response is not a redirect, otherwise the method of
  the next request and whether it carries the body again. (Every request of this program
  can replay its body, so the case of a body that cannot be sent again does not arise.)
\<close>

definition redirectBehavior :: "http_method \<Rightarrow> Response \<Rightarrow> (http_method \<times> bool) option" where
  "redirectBehavior reqMethod resp =
     (if StatusCode resp = 301 \<or> StatusCode resp = 302 \<or> StatusCode resp = 303
        then Some (GET, False)
      else if StatusCode resp = 307 \<or> StatusCode resp = 308
        then Some (reqMethod, True)
      else None)"

text \<open>
  \<open>textproto.CanonicalMIMEHeaderKey\<close>, the form in which \<open>http.Header\<close> keeps its keys: the
  first letter and every letter after a hyphen in upper case, the other letters in lower
  case. A key with a byte that no header name may hold is left as it is.
\<close>

definition validHeaderFieldByte :: "char \<Rightarrow> bool" where
  "validHeaderFieldByte c =
     (let n = (of_char c :: nat)
      in (97 \<le> n \<and> n \<le> 122) \<or> (65 \<le> n \<and> n \<le> 90) \<or> (48 \<le> n \<and> n \<le> 57)
         \<or> n \<in> set [33, 35, 36, 37, 38, 39, 42, 43, 45, 46, 94, 95, 96, 124, 126])"

fun canonical_bytes :: "bool \<Rightarrow> string \<Rightarrow> string" where
  "canonical_bytes upper [] = []"
| "canonical_bytes upper (c # cs) =
     (let n = (of_char c :: nat);
          c1 = (if upper \<and> 97 \<le> n \<and> n \<le> 122 then char_of (n - 32)
                else if \<not> upper \<and> 65 \<le> n \<and> n \<le> 90 then char_of (n + 32)
                else c)
      in c1 # canonical_bytes (c1 = CHR ''-'') cs)"

definition CanonicalMIMEHeaderKey :: "string \<Rightarrow> string" where
  "CanonicalMIMEHeaderKey s = (if list_all validHeaderFieldByte s then canonical_bytes True s else s)"

text \<open>
  The headers of the request that follows a redirect: those of the caller's request,
  without the four headers that describe the body when the body is not sent again. (The
  \<open>Referer\<close> the client adds is left out, and so is the removal of credentials when the
  redirect leaves the host: the program sets none.)
\<close>

definition hop_Header :: "(string \<times> string) list \<Rightarrow> bool \<Rightarrow> (string \<times> string) list" where
  "hop_Header h includeBody =
     (if includeBody then h
      else filter (\<lambda>kv. CanonicalMIMEHeaderKey (fst kv)
                          \<notin> set [''Content-Encoding'', ''Content-Language'',
                                   ''Content-Location'', ''Content-Type'']) h)"

text \<open>
  The loop of \<open>Client.do\<close>. \<open>ireq\<close> is the request of the caller, \<open>req\<close> the one to send
  now, \<open>reqs\<close> the ones sent before it in this call. After a redirect with a \<open>Location\<close>
  the client asks the policy: no error means it sends the next request; the error
  \<open>ErrUseLastResponse\<close> means the caller gets the redirect itself; any other error is
  returned. The first argument bounds the number of round trips: \<open>None\<close> says that the
  client is still following redirects after that many.
\<close>

fun do_loop ::
  "nat \<Rightarrow> env \<Rightarrow> Client \<Rightarrow> Request \<Rightarrow> Request \<Rightarrow> Request list \<Rightarrow> bool \<Rightarrow> world
     \<Rightarrow> ((error + Response) \<times> world) option" where
  "do_loop 0 env c ireq req reqs includeBody w = None"
| "do_loop (Suc n) env c ireq req reqs includeBody w =
     (case send env c req w of
        (Inl err, w1) \<Rightarrow> Some (Inl err, w1)
      | (Inr resp, w1) \<Rightarrow>
          (case redirectBehavior (Method req) resp of
             None \<Rightarrow> Some (Inr resp, w1)
           | Some (redirectMethod, includeBodyOnHop) \<Rightarrow>
               if Location resp = [] then Some (Inr resp, w1)
               else if \<not> url_Parse_ok env (Location resp)
                 then Some (Inl (Errorf ''failed to parse Location header %q: %v''
                                   [ArgStr (Location resp), ArgErr ParseError]), w1)
               else
                 let includeBody1 = (includeBody \<and> includeBodyOnHop);
                     next = \<lparr>Method = redirectMethod, URL = Location resp,
                             Header = hop_Header (Header ireq) includeBody1, Cookies = [],
                             Body = (if includeBody1 then Body ireq else []),
                             Via = Suc (length reqs)\<rparr>
                 in (case checkRedirect c next (reqs @ [req]) of
                       None \<Rightarrow> do_loop n env c ireq next (reqs @ [req]) includeBody1 w1
                     | Some e \<Rightarrow>
                         if e = ErrUseLastResponse then Some (Inr resp, w1)
                         else Some (Inl e, w1))))"

definition client_Do ::
  "nat \<Rightarrow> env \<Rightarrow> Client \<Rightarrow> Request \<Rightarrow> world \<Rightarrow> ((error + Response) \<times> world) option" where
  "client_Do n env c req w = do_loop n env c req req [] True w"

text \<open>\<open>http.NewRequest\<close> fails when the URL does not parse.\<close>

definition NewRequest :: "env \<Rightarrow> http_method \<Rightarrow> string \<Rightarrow> string \<Rightarrow> error + Request" where
  "NewRequest env m u b =
     (if url_Parse_ok env u
      then Inr \<lparr>Method = m, URL = u, Header = [], Cookies = [], Body = b, Via = 0\<rparr>
      else Inl ParseError)"

definition client_Get ::
  "nat \<Rightarrow> env \<Rightarrow> Client \<Rightarrow> string \<Rightarrow> world \<Rightarrow> ((error + Response) \<times> world) option" where
  "client_Get n env c u w =
     (case NewRequest env GET u [] of
        Inl err \<Rightarrow> Some (Inl err, w)
      | Inr req \<Rightarrow> client_Do n env c req w)"

text \<open>
  \<open>req.Header.Set(key, value)\<close>: the value replaces those the header holds under the
  canonical form of the key.
\<close>

definition Header_Set :: "Request \<Rightarrow> string \<Rightarrow> string \<Rightarrow> Request" where
  "Header_Set req k v =
     (let key = CanonicalMIMEHeaderKey k
      in req\<lparr>Header := filter (\<lambda>kv. fst kv \<noteq> key) (Header req) @ [(key, v)]\<rparr>)"

text \<open>\<open>Client.PostForm\<close>: a POST of the encoded form, with its content type.\<close>

definition client_PostForm ::
  "nat \<Rightarrow> env \<Rightarrow> Client \<Rightarrow> string \<Rightarrow> Values \<Rightarrow> world
     \<Rightarrow> ((error + Response) \<times> world) option" where
  "client_PostForm n env c u data w =
     (case NewRequest env POST u (Values_Encode data) of
        Inl err \<Rightarrow> Some (Inl err, w)
      | Inr req \<Rightarrow>
          client_Do n env c
            (Header_Set req ''Content-Type'' ''application/x-www-form-urlencoded'') w)"

section \<open>Package azubiheft: the scraping client\<close>

definition baseURL :: string where
  "baseURL = ''https://www.azubiheft.de''"

record Session =
  client :: Client

record ReportEntry =
  Seq :: string
  Type :: string
  Duration :: string
  Text :: string

text \<open>
  \<open>NewSession\<close>: a client with a new, empty cookie jar and a redirect policy that returns
  \<open>nil\<close> whatever it is asked.
\<close>

definition NewSession :: "world \<Rightarrow> Session \<times> world" where
  "NewSession w =
     (let jar = next_jar w
      in (\<lparr>client = \<lparr>Jar = Some jar, CheckRedirect = Some (\<lambda>req via. None)\<rparr>\<rparr>,
          w\<lparr>jars := (jars w)(jar := []), next_jar := Suc jar\<rparr>))"

subsection \<open>Login and IsLoggedIn\<close>

definition Abmelden_marker :: string where
  "Abmelden_marker = ''id='' @ [CHR 0x22] @ ''Abmelden'' @ [CHR 0x22]"

definition IsLoggedIn :: "nat \<Rightarrow> env \<Rightarrow> Session \<Rightarrow> world \<Rightarrow> (bool \<times> world) option" where
  "IsLoggedIn n env s w =
     (case client_Get n env (client s) (baseURL @ ''/Azubi/Default.aspx'') w of
        None \<Rightarrow> None
      | Some (Inl err, w1) \<Rightarrow> Some (False, w1)
      | Some (Inr resp, w1) \<Rightarrow>
          if ReadFails resp then Some (False, w1)
          else Some (Contains (RespBody resp) Abmelden_marker, w1))"

text \<open>\<open>v, _ := sel.Attr("value")\<close>: the empty string when the attribute is absent.\<close>

definition Attr_or_empty :: "string option \<Rightarrow> string" where
  "Attr_or_empty a = (case a of None \<Rightarrow> [] | Some v \<Rightarrow> v)"

definition login_formData :: "page \<Rightarrow> string \<Rightarrow> string \<Rightarrow> Values" where
  "login_formData doc username password =
     [(''__VIEWSTATE'', Attr_or_empty (VIEWSTATE doc)),
      (''__VIEWSTATEGENERATOR'', Attr_or_empty (VIEWSTATEGENERATOR doc)),
      (''__EVENTVALIDATION'', Attr_or_empty (EVENTVALIDATION doc)),
      (''ctl00$ContentPlaceHolder1$txt_Benutzername'', username),
      (''ctl00$ContentPlaceHolder1$txt_Passwort'', password),
      (''ctl00$ContentPlaceHolder1$chk_Persistent'', ''on''),
      (''ctl00$ContentPlaceHolder1$cmd_Login'', ''Anmelden''),
      (''ctl00$ContentPlaceHolder1$HiddenField_isMobile'', ''false'')]"

definition Login ::
  "nat \<Rightarrow> env \<Rightarrow> Session \<Rightarrow> string \<Rightarrow> string \<Rightarrow> world \<Rightarrow> (error option \<times> world) option" where
  "Login n env s username password w =
     (case client_Get n env (client s) (baseURL @ ''/Login.aspx'') w of
        None \<Rightarrow> None
      | Some (Inl err, w1) \<Rightarrow> Some (Some (Errorf ''failed to get login page: %w'' [ArgErr err]), w1)
      | Some (Inr resp, w1) \<Rightarrow>
          (case NewDocumentFromReader resp of
             Inl err \<Rightarrow> Some (Some (Errorf ''failed to parse login page: %w'' [ArgErr err]), w1)
           | Inr doc \<Rightarrow>
               (case client_PostForm n env (client s) (baseURL @ ''/Login.aspx'')
                       (login_formData doc username password) w1 of
                  None \<Rightarrow> None
                | Some (Inl err, w2) \<Rightarrow>
                    Some (Some (Errorf ''failed to submit login: %w'' [ArgErr err]), w2)
                | Some (Inr resp2, w2) \<Rightarrow>
                    (case IsLoggedIn n env s w2 of
                       None \<Rightarrow> None
                     | Some (loggedIn, w3) \<Rightarrow>
                         if \<not> loggedIn
                         then Some (Some (Errorf ''login failed: invalid credentials'' []), w3)
                         else Some (None, w3)))))"

subsection \<open>GetSubjects\<close>

record Subject =
  ID :: string
  Name :: string

definition builtin_subjects :: "Subject list" where
  "builtin_subjects =
     [\<lparr>ID = ''1'', Name = ''Betrieb''\<rparr>,
      \<lparr>ID = ''2'', Name = ''Schule''\<rparr>,
      \<lparr>ID = ''3'', Name = [CHR 0xC3, CHR 0x9C] @ ''BA''\<rparr>,
      \<lparr>ID = ''4'', Name = ''Urlaub''\<rparr>,
      \<lparr>ID = ''5'', Name = ''Feiertag''\<rparr>,
      \<lparr>ID = ''6'', Name = ''Arbeitsunf'' @ [CHR 0xC3, CHR 0xA4] @ ''hig''\<rparr>,
      \<lparr>ID = ''7'', Name = ''Frei''\<rparr>]"

definition subject_step :: "Subject list \<Rightarrow> subject_input \<Rightarrow> Subject list" where
  "subject_step subjects sel =
     (case data_default sel of
        None \<Rightarrow> subjects
      | Some i \<Rightarrow>
          (case input_value sel of
             None \<Rightarrow> subjects
           | Some name \<Rightarrow>
               if name \<noteq> [] then subjects @ [\<lparr>ID = i, Name = name\<rparr>] else subjects))"

definition GetSubjects ::
  "nat \<Rightarrow> env \<Rightarrow> Session \<Rightarrow> world \<Rightarrow> ((error + Subject list) \<times> world) option" where
  "GetSubjects n env s w =
     (case client_Get n env (client s) (baseURL @ ''/Azubi/SetupSchulfach.aspx'') w of
        None \<Rightarrow> None
      | Some (Inl err, w1) \<Rightarrow>
          Some (Inl (Errorf ''failed to get subjects page: %w'' [ArgErr err]), w1)
      | Some (Inr resp, w1) \<Rightarrow>
          (case NewDocumentFromReader resp of
             Inl err \<Rightarrow> Some (Inl (Errorf ''failed to parse subjects page: %w'' [ArgErr err]), w1)
           | Inr doc \<Rightarrow>
               (case divSchulfach doc of
                  None \<Rightarrow> Some (Inr builtin_subjects, w1)
                | Some inputs \<Rightarrow> Some (Inr (foldl subject_step builtin_subjects inputs), w1))))"

text \<open>The two pages the client reads: the overview of the weeks and the report of a day.\<close>

definition overview_URL :: string where
  "overview_URL = baseURL @ ''/Azubi/Ausbildungsnachweise.aspx''"

definition day_URL :: "string \<Rightarrow> string" where
  "day_URL dateStr = baseURL @ ''/Azubi/Tagesbericht.aspx?Datum='' @ dateStr"

subsection \<open>GetReportWeekID\<close>

text \<open>
  The body of the closure \<open>GetReportWeekID\<close> runs on each week tile: it returns the new
  value of the variable \<open>weekID\<close>. Every \<open>return\<close> of the closure leaves it unchanged.
\<close>

definition week_tile_step :: "int \<Rightarrow> int \<Rightarrow> string \<Rightarrow> tile \<Rightarrow> string" where
  "week_tile_step year week weekID sel =
     (case onclick sel of
        None \<Rightarrow> weekID
      | Some oc \<Rightarrow>
          if length (div_sKW sel) = 0 then weekID
          else if length (div_KW sel) = 0 then weekID
          else if length (div_KW_div sel) < 3 then weekID
          else
            (case Atoi (TrimSpace (Selection_Text (div_sKW sel))) of
               None \<Rightarrow> weekID
             | Some kw \<Rightarrow>
                 (case Atoi (TrimSpace (elem_Text (div_KW_div sel ! 2))) of
                    None \<Rightarrow> weekID
                  | Some kwYear \<Rightarrow>
                      if kw = week \<and> kwYear = year
                      then (case FindStringSubmatch_NachweisNr oc of
                              Some m \<Rightarrow> m
                            | None \<Rightarrow> weekID)
                      else weekID)))"

definition GetReportWeekID ::
  "nat \<Rightarrow> env \<Rightarrow> Session \<Rightarrow> Time \<Rightarrow> world \<Rightarrow> ((error + string) \<times> world) option" where
  "GetReportWeekID n env s date w =
     (case client_Get n env (client s) overview_URL w of
        None \<Rightarrow> None
      | Some (Inl err, w1) \<Rightarrow>
          Some (Inl (Errorf ''failed to get reports page: %w'' [ArgErr err]), w1)
      | Some (Inr resp, w1) \<Rightarrow>
          (case NewDocumentFromReader resp of
             Inl err \<Rightarrow> Some (Inl (Errorf ''failed to parse reports page: %w'' [ArgErr err]), w1)
           | Inr doc \<Rightarrow>
               (let year = fst (ISOWeek date);
                    week = snd (ISOWeek date);
                    weekID = foldl (week_tile_step year week) [] (NBox doc)
                in if weekID = []
                   then Some (Inl (Errorf ''no report found for week %d/%d''
                                     [ArgInt week, ArgInt year]), w1)
                   else Some (Inr weekID, w1))))"

subsection \<open>GetReport\<close>

text \<open>
  The body of the closure \<open>GetReport\<close> runs on each day-entry container: it returns the
  new value of the slice \<open>entries\<close>.
\<close>

definition day_entry_step :: "bool \<Rightarrow> ReportEntry list \<Rightarrow> day_entry \<Rightarrow> ReportEntry list" where
  "day_entry_step includeFormatting entries entry =
     (let seq = (case data_seq entry of None \<Rightarrow> [] | Some v \<Rightarrow> v);
          duration = TrimSpace (Selection_Text (div_row2_d4 entry))
      in if duration = ''00:00'' then entries
         else
           (let activityType =
                  TrimPrefix (TrimSpace (Selection_Text (div_row1_d3 entry))) ''Art: '';
                reportTextDiv = div_row7_d5 entry;
                text =
                  (if includeFormatting
                   then ReplaceAll (ReplaceAll (Selection_Html reportTextDiv) ''<br/>'' [CHR 0x0A])
                          ''<br>'' [CHR 0x0A]
                   else TrimSpace (Selection_Text reportTextDiv))
            in entries @ [\<lparr>Seq = seq, Type = activityType, Duration = duration, Text = text\<rparr>]))"

definition GetReport ::
  "nat \<Rightarrow> env \<Rightarrow> Session \<Rightarrow> Time \<Rightarrow> bool \<Rightarrow> world
     \<Rightarrow> ((error + ReportEntry list) \<times> world) option" where
  "GetReport n env s date includeFormatting w =
     (let dateStr = Format_20060102 date
      in case client_Get n env (client s) (day_URL dateStr) w of
           None \<Rightarrow> None
         | Some (Inl err, w1) \<Rightarrow>
             Some (Inl (Errorf ''failed to get report page: %w'' [ArgErr err]), w1)
         | Some (Inr resp, w1) \<Rightarrow>
             (case NewDocumentFromReader resp of
                Inl err \<Rightarrow> Some (Inl (Errorf ''failed to parse report page: %w'' [ArgErr err]), w1)
              | Inr doc \<Rightarrow>
                  Some (Inr (foldl (day_entry_step includeFormatting) [] (d0_mo doc)), w1)))"

subsection \<open>WriteReport\<close>

text \<open>The URL of the AJAX endpoint, as both \<open>WriteReport\<close> and \<open>DeleteReport\<close> format it.\<close>

definition ajax_URL :: "string \<Rightarrow> string \<Rightarrow> int \<Rightarrow> string" where
  "ajax_URL dateStr weekID timestamp =
     baseURL @ ''/Azubi/XMLHttpRequest.ashx?Datum='' @ dateStr @ ''&BrNr='' @ weekID
       @ ''&BrSt=1&BrVorh=Yes&T='' @ Itoa timestamp"

definition formattedMessage :: "string \<Rightarrow> string" where
  "formattedMessage message =
     Join (map (\<lambda>line. ''<div>'' @ line @ ''</div>'') (Split_lines message)) []"

definition encodedMessage :: "string \<Rightarrow> string" where
  "encodedMessage message = ReplaceAll (QueryEscape (formattedMessage message)) ''+'' ''%20''"

definition write_formData :: "string \<Rightarrow> string \<Rightarrow> int \<Rightarrow> Values" where
  "write_formData message timeSpent entryType =
     [(''disablePaste'', ''0''),
      (''Seq'', ''0''),
      (''Art_ID'', Itoa entryType),
      (''Abt_ID'', ''0''),
      (''Dauer'', timeSpent),
      (''Inhalt'', encodedMessage message),
      (''jsVer'', ''12'')]"

definition write_headers :: "Request \<Rightarrow> Request" where
  "write_headers req =
     Header_Set (Header_Set (Header_Set (Header_Set (Header_Set (Header_Set (Header_Set
       (Header_Set (Header_Set req
          ''Content-Type'' ''application/x-www-form-urlencoded'')
          ''x-my-ajax-request'' ''ajax'')
          ''Origin'' baseURL)
          ''Referer'' baseURL)
          ''Sec-Fetch-Dest'' ''empty'')
          ''Sec-Fetch-Mode'' ''cors'')
          ''Sec-Fetch-Site'' ''same-origin'')
          ''Pragma'' ''no-cache'')
          ''Cache-Control'' ''no-cache''"

definition WriteReport ::
  "nat \<Rightarrow> env \<Rightarrow> Session \<Rightarrow> Time \<Rightarrow> string \<Rightarrow> string \<Rightarrow> int \<Rightarrow> world
     \<Rightarrow> (error option \<times> world) option" where
  "WriteReport n env s date message timeSpent entryType w =
     (if timeSpent = ''00:00'' then Some (None, w)
      else
        (case GetReportWeekID n env s date w of
           None \<Rightarrow> None
         | Some (Inl err, w1) \<Rightarrow> Some (Some err, w1)
         | Some (Inr weekID, w1) \<Rightarrow>
             (let dateStr = Format_20060102 date;
                  timestamp = unix_now env (trace w1);
                  reqURL = ajax_URL dateStr weekID timestamp
              in case NewRequest env POST reqURL
                        (Values_Encode (write_formData message timeSpent entryType)) of
                   Inl err \<Rightarrow> Some (Some (Errorf ''failed to create request: %w'' [ArgErr err]), w1)
                 | Inr req \<Rightarrow>
                     (case client_Do n env (client s) (write_headers req) w1 of
                        None \<Rightarrow> None
                      | Some (Inl err, w2) \<Rightarrow>
                          Some (Some (Errorf ''failed to write report: %w'' [ArgErr err]), w2)
                      | Some (Inr resp, w2) \<Rightarrow>
                          if StatusCode resp \<noteq> 200
                          then Some (Some (Errorf ''failed to write report: status code %d, body: %s''
                                             [ArgInt (StatusCode resp), ArgStr (RespBody resp)]), w2)
                          else Some (None, w2)))))"

subsection \<open>DeleteReport\<close>

definition delete_formData :: "ReportEntry \<Rightarrow> Values" where
  "delete_formData entry =
     [(''disablePaste'', ''0''),
      (''Seq'', ''-'' @ Seq entry),
      (''Art_ID'', ''0''),
      (''Abt_ID'', ''0''),
      (''Dauer'', Duration entry),
      (''Inhalt'', Text entry),
      (''jsVer'', ''12'')]"

definition delete_headers :: "Request \<Rightarrow> Request" where
  "delete_headers req =
     Header_Set (Header_Set (Header_Set (Header_Set req
          ''Content-Type'' ''application/x-www-form-urlencoded'')
          ''x-my-ajax-request'' ''ajax'')
          ''Origin'' baseURL)
          ''Referer'' baseURL"

text \<open>The loop over \<open>entriesToDelete\<close>: one POST per entry, stopping at the first failure.\<close>

fun delete_entries ::
  "nat \<Rightarrow> env \<Rightarrow> Session \<Rightarrow> string \<Rightarrow> ReportEntry list \<Rightarrow> world
     \<Rightarrow> (error option \<times> world) option" where
  "delete_entries n env s reqURL [] w = Some (None, w)"
| "delete_entries n env s reqURL (entry # rest) w =
     (case NewRequest env POST reqURL (Values_Encode (delete_formData entry)) of
        Inl err \<Rightarrow> Some (Some (Errorf ''failed to create delete request: %w'' [ArgErr err]), w)
      | Inr req \<Rightarrow>
          (case client_Do n env (client s) (delete_headers req) w of
             None \<Rightarrow> None
           | Some (Inl err, w1) \<Rightarrow>
               Some (Some (Errorf ''failed to delete report: %w'' [ArgErr err]), w1)
           | Some (Inr resp, w1) \<Rightarrow>
               if StatusCode resp \<noteq> 200
               then Some (Some (Errorf ''failed to delete report: status code %d''
                                  [ArgInt (StatusCode resp)]), w1)
               else delete_entries n env s reqURL rest w1))"

definition DeleteReport ::
  "nat \<Rightarrow> env \<Rightarrow> Session \<Rightarrow> Time \<Rightarrow> int option \<Rightarrow> world \<Rightarrow> (error option \<times> world) option" where
  "DeleteReport n env s date entryNumber w =
     (case GetReport n env s date False w of
        None \<Rightarrow> None
      | Some (Inl err, w1) \<Rightarrow> Some (Some err, w1)
      | Some (Inr reports, w1) \<Rightarrow>
          if length reports = 0 then Some (None, w1)
          else
            (case GetReportWeekID n env s date w1 of
               None \<Rightarrow> None
             | Some (Inl err, w2) \<Rightarrow> Some (Some err, w2)
             | Some (Inr weekID, w2) \<Rightarrow>
                 (let dateStr = Format_20060102 date;
                      timestamp = unix_now env (trace w2);
                      reqURL = ajax_URL dateStr weekID timestamp
                  in case entryNumber of
                       None \<Rightarrow> delete_entries n env s reqURL reports w2
                     | Some k \<Rightarrow>
                         if k < 1 \<or> k > int (length reports)
                         then Some (Some (Errorf ''invalid entry number: %d'' [ArgInt k]), w2)
                         else delete_entries n env s reqURL [reports ! nat (k - 1)] w2)))"

section \<open>Package azubiheftserver: the service layer\<close>

text \<open>
  The arguments of a tool call: a JSON object decoded into a Go map. A number is a
  \<open>float64\<close> in Go; it is given here by the integer the conversion \<open>int(val)\<close> yields, the
  only thing the service reads from it.
\<close>

datatype json = JString string | JNumber int | JBool bool | JNull

type_synonym arguments = "string \<rightharpoonup> json"

text \<open>The type assertions \<open>args[key].(string)\<close>, \<open>.(float64)\<close> and \<open>.(bool)\<close>; \<open>None\<close> is \<open>ok = false\<close>.\<close>

definition arg_string :: "arguments \<Rightarrow> string \<Rightarrow> string option" where
  "arg_string args k = (case args k of Some (JString v) \<Rightarrow> Some v | _ \<Rightarrow> None)"

definition arg_float64 :: "arguments \<Rightarrow> string \<Rightarrow> int option" where
  "arg_float64 args k = (case args k of Some (JNumber v) \<Rightarrow> Some v | _ \<Rightarrow> None)"

definition arg_bool :: "arguments \<Rightarrow> string \<Rightarrow> bool option" where
  "arg_bool args k = (case args k of Some (JBool v) \<Rightarrow> Some v | _ \<Rightarrow> None)"

text \<open>The service: the sessions by their identifiers, and the identifier of the default session.\<close>

record AzubiheftService =
  sessions :: "string \<rightharpoonup> Session"
  defaultSessionID :: string

definition NewAzubiheftService ::
  "nat \<Rightarrow> env \<Rightarrow> string \<Rightarrow> string \<Rightarrow> world \<Rightarrow> (AzubiheftService \<times> world) option" where
  "NewAzubiheftService n env username password w =
     (let service = \<lparr>sessions = Map.empty, defaultSessionID = []\<rparr>
      in if username \<noteq> [] \<and> password \<noteq> []
         then
           (let session = fst (NewSession w); w1 = snd (NewSession w)
            in case Login n env session username password w1 of
                 None \<Rightarrow> None
               | Some (Some err, w2) \<Rightarrow> Some (service, w2)
               | Some (None, w2) \<Rightarrow>
                   Some (service\<lparr>sessions := (sessions service)(''default'' \<mapsto> session),
                                 defaultSessionID := ''default''\<rparr>, w2))
         else Some (service, w))"

definition getSession :: "AzubiheftService \<Rightarrow> string \<Rightarrow> error + Session" where
  "getSession svc sessionID0 =
     (let sessionID =
            (if sessionID0 = [] \<and> defaultSessionID svc \<noteq> [] then defaultSessionID svc
             else sessionID0)
      in case sessions svc sessionID of
           None \<Rightarrow>
             if defaultSessionID svc \<noteq> []
             then Inl (Errorf (''invalid session ID (hint: use 'default' or omit session_id ''
                                @ ''to use auto-login session)'') [])
             else Inl (Errorf ''invalid session ID'' [])
         | Some session \<Rightarrow> Inr session)"

text \<open>The verb \<open>%+v\<close> on a slice of subjects.\<close>

definition Sprint_subjects :: "Subject list \<Rightarrow> string" where
  "Sprint_subjects subjects =
     ''['' @ Join (map (\<lambda>x. ''{ID:'' @ ID x @ '' Name:'' @ Name x @ ''}'') subjects) '' '' @ '']''"

definition Service_GetSubjects ::
  "nat \<Rightarrow> env \<Rightarrow> AzubiheftService \<Rightarrow> arguments \<Rightarrow> world \<Rightarrow> ((error + string) \<times> world) option" where
  "Service_GetSubjects n env svc args w =
     (let sessionID = (case arg_string args ''session_id'' of None \<Rightarrow> [] | Some v \<Rightarrow> v)
      in case getSession svc sessionID of
           Inl err \<Rightarrow> Some (Inl err, w)
         | Inr session \<Rightarrow>
             (case GetSubjects n env session w of
                None \<Rightarrow> None
              | Some (Inl err, w1) \<Rightarrow>
                  Some (Inl (Errorf ''failed to get subjects: %w'' [ArgErr err]), w1)
              | Some (Inr subjects, w1) \<Rightarrow>
                  Some (Inr (''Subjects: '' @ Sprint_subjects subjects), w1)))"

definition Service_WriteReport ::
  "nat \<Rightarrow> env \<Rightarrow> AzubiheftService \<Rightarrow> arguments \<Rightarrow> world \<Rightarrow> ((error + string) \<times> world) option" where
  "Service_WriteReport n env svc args w =
     (case arg_string args ''session_id'' of
        None \<Rightarrow> Some (Inl (Errorf ''session_id is required'' []), w)
      | Some sessionID \<Rightarrow>
     (case arg_string args ''date'' of
        None \<Rightarrow> Some (Inl (Errorf ''date is required'' []), w)
      | Some dateStr \<Rightarrow>
     (case time_Parse env dateStr of
        None \<Rightarrow>
          Some (Inl (Errorf ''invalid date format, use YYYY-MM-DD: %w'' [ArgErr ParseError]), w)
      | Some date \<Rightarrow>
     (case arg_string args ''message'' of
        None \<Rightarrow> Some (Inl (Errorf ''message is required'' []), w)
      | Some message \<Rightarrow>
     (case arg_string args ''time_spent'' of
        None \<Rightarrow> Some (Inl (Errorf ''time_spent is required'' []), w)
      | Some timeSpent \<Rightarrow>
     (case arg_float64 args ''entry_type'' of
        None \<Rightarrow> Some (Inl (Errorf ''entry_type is required'' []), w)
      | Some entryType \<Rightarrow>
     (case getSession svc sessionID of
        Inl err \<Rightarrow> Some (Inl err, w)
      | Inr session \<Rightarrow>
          (case WriteReport n env session date message timeSpent entryType w of
             None \<Rightarrow> None
           | Some (Some err, w1) \<Rightarrow>
               Some (Inl (Errorf ''failed to write report: %w'' [ArgErr err]), w1)
           | Some (None, w1) \<Rightarrow>
               Some (Inr (''Report for '' @ dateStr @ '' written successfully''), w1)))))))))"

definition Service_DeleteReport ::
  "nat \<Rightarrow> env \<Rightarrow> AzubiheftService \<Rightarrow> arguments \<Rightarrow> world \<Rightarrow> ((error + string) \<times> world) option" where
  "Service_DeleteReport n env svc args w =
     (case arg_string args ''session_id'' of
        None \<Rightarrow> Some (Inl (Errorf ''session_id is required'' []), w)
      | Some sessionID \<Rightarrow>
     (case arg_string args ''date'' of
        None \<Rightarrow> Some (Inl (Errorf ''date is required'' []), w)
      | Some dateStr \<Rightarrow>
     (case time_Parse env dateStr of
        None \<Rightarrow>
          Some (Inl (Errorf ''invalid date format, use YYYY-MM-DD: %w'' [ArgErr ParseError]), w)
      | Some date \<Rightarrow>
     (let entryNumber = arg_float64 args ''entry_number''
      in case getSession svc sessionID of
           Inl err \<Rightarrow> Some (Inl err, w)
         | Inr session \<Rightarrow>
             (case DeleteReport n env session date entryNumber w of
                None \<Rightarrow> None
              | Some (Some err, w1) \<Rightarrow>
                  Some (Inl (Errorf ''failed to delete report: %w'' [ArgErr err]), w1)
              | Some (None, w1) \<Rightarrow>
                  Some (Inr (''Report(s) for '' @ dateStr @ '' deleted successfully''), w1))))))"

definition Service_GetWeekID ::
  "nat \<Rightarrow> env \<Rightarrow> AzubiheftService \<Rightarrow> arguments \<Rightarrow> world \<Rightarrow> ((error + string) \<times> world) option" where
  "Service_GetWeekID n env svc args w =
     (case arg_string args ''session_id'' of
        None \<Rightarrow> Some (Inl (Errorf ''session_id is required'' []), w)
      | Some sessionID \<Rightarrow>
     (case arg_string args ''date'' of
        None \<Rightarrow> Some (Inl (Errorf ''date is required'' []), w)
      | Some dateStr \<Rightarrow>
     (case time_Parse env dateStr of
        None \<Rightarrow>
          Some (Inl (Errorf ''invalid date format, use YYYY-MM-DD: %w'' [ArgErr ParseError]), w)
      | Some date \<Rightarrow>
     (case getSession svc sessionID of
        Inl err \<Rightarrow> Some (Inl err, w)
      | Inr session \<Rightarrow>
          (case GetReportWeekID n env session date w of
             None \<Rightarrow> None
           | Some (Inl err, w1) \<Rightarrow>
               Some (Inl (Errorf ''failed to get week ID: %w'' [ArgErr err]), w1)
           | Some (Inr weekID, w1) \<Rightarrow>
               Some (Inr (''Week ID for '' @ dateStr @ '': '' @ weekID), w1))))))"

definition Service_IsLoggedIn ::
  "nat \<Rightarrow> env \<Rightarrow> AzubiheftService \<Rightarrow> arguments \<Rightarrow> world \<Rightarrow> ((error + string) \<times> world) option" where
  "Service_IsLoggedIn n env svc args w =
     (case arg_string args ''session_id'' of
        None \<Rightarrow> Some (Inl (Errorf ''session_id is required'' []), w)
      | Some sessionID \<Rightarrow>
          (case getSession svc sessionID of
             Inl err \<Rightarrow> Some (Inl err, w)
           | Inr session \<Rightarrow>
               (case IsLoggedIn n env session w of
                  None \<Rightarrow> None
                | Some (loggedIn, w1) \<Rightarrow>
                    Some (Inr (''Logged in: '' @ (if loggedIn then ''true'' else ''false'')), w1))))"

section \<open>Notions the properties are stated with\<close>

text \<open>The requests sent between two worlds, and those of them the program itself issued.\<close>

definition sent :: "world \<Rightarrow> world \<Rightarrow> Request list" where
  "sent w w' = drop (length (trace w)) (trace w')"


text \<open>Two requests that differ at most in the cookies the client added.\<close>

definition same_request :: "Request \<Rightarrow> Request \<Rightarrow> bool" where
  "same_request q req =
     (Method q = Method req \<and> URL q = URL req \<and> Header q = Header req \<and> Body q = Body req
      \<and> Via q = Via req)"

text \<open>
  What \<open>GetReport\<close> reads from a day-entry container: its duration, and the entry it
  appends for it.
\<close>

definition container_duration :: "day_entry \<Rightarrow> string" where
  "container_duration entry = TrimSpace (Selection_Text (div_row2_d4 entry))"

definition container_entry :: "bool \<Rightarrow> day_entry \<Rightarrow> ReportEntry" where
  "container_entry includeFormatting entry =
     \<lparr>Seq = (case data_seq entry of None \<Rightarrow> [] | Some v \<Rightarrow> v),
      Type = TrimPrefix (TrimSpace (Selection_Text (div_row1_d3 entry))) ''Art: '',
      Duration = container_duration entry,
      Text = (if includeFormatting
              then ReplaceAll (ReplaceAll (Selection_Html (div_row7_d5 entry)) ''<br/>'' [CHR 0x0A])
                     ''<br>'' [CHR 0x0A]
              else TrimSpace (Selection_Text (div_row7_d5 entry)))\<rparr>"

text \<open>
  What the closure of \<open>GetReportWeekID\<close> reads from a week tile: the pair (week, year),
  \<open>None\<close> when the closure returns before comparing; whether the tile matches a year and
  a week; and the identifier its \<open>onclick\<close> attribute carries, if any.
\<close>

definition tile_week_year :: "tile \<Rightarrow> (int \<times> int) option" where
  "tile_week_year sel =
     (if onclick sel = None \<or> length (div_sKW sel) = 0 \<or> length (div_KW sel) = 0
         \<or> length (div_KW_div sel) < 3
      then None
      else (case Atoi (TrimSpace (Selection_Text (div_sKW sel))) of
              None \<Rightarrow> None
            | Some kw \<Rightarrow>
                (case Atoi (TrimSpace (elem_Text (div_KW_div sel ! 2))) of
                   None \<Rightarrow> None
                 | Some kwYear \<Rightarrow> Some (kw, kwYear))))"

definition tile_matches :: "int \<Rightarrow> int \<Rightarrow> tile \<Rightarrow> bool" where
  "tile_matches year week sel = (tile_week_year sel = Some (week, year))"

definition tile_id :: "tile \<Rightarrow> string option" where
  "tile_id sel =
     (case onclick sel of None \<Rightarrow> None | Some oc \<Rightarrow> FindStringSubmatch_NachweisNr oc)"

text \<open>
  The specification's words for \<open>GetReportWeekID\<close>: the identifier carried by the first
  tile that matches.
\<close>

definition spec_first_matching_id :: "int \<Rightarrow> int \<Rightarrow> tile list \<Rightarrow> string option" where
  "spec_first_matching_id year week tiles =
     (case find (tile_matches year week) tiles of None \<Rightarrow> None | Some sel \<Rightarrow> tile_id sel)"

text \<open>The last tile, in document order, that matches and carries an identifier.\<close>

definition last_identified_match :: "int \<Rightarrow> int \<Rightarrow> tile list \<Rightarrow> tile option" where
  "last_identified_match year week tiles =
     find (\<lambda>sel. tile_matches year week sel \<and> tile_id sel \<noteq> None) (rev tiles)"



definition entriesToDelete :: "int option \<Rightarrow> ReportEntry list \<Rightarrow> ReportEntry list" where
  "entriesToDelete entryNumber reports =
     (case entryNumber of
        None \<Rightarrow> reports
      | Some k \<Rightarrow> if k < 1 \<or> k > int (length reports) then [] else [reports ! nat (k - 1)])"


text \<open>A redirect the client can follow: a redirect status and a \<open>Location\<close>.\<close>

definition followable_redirect :: "Response \<Rightarrow> bool" where
  "followable_redirect resp =
     ((StatusCode resp = 301 \<or> StatusCode resp = 302 \<or> StatusCode resp = 303
        \<or> StatusCode resp = 307 \<or> StatusCode resp = 308)
      \<and> Location resp \<noteq> [])"

section \<open>Concrete inputs\<close>

text \<open>
  A small remote application for running the operations: it serves an overview page
  with the given week tiles, the report page of 4 March 2024 (a Monday, in ISO week 10
  of 2024) with the given day-entry containers, and accepts every POST.
\<close>

definition example_world :: world where
  "example_world = \<lparr>trace = [], jars = (\<lambda>j. []), next_jar = 0\<rparr>"

definition example_session :: Session where
  "example_session = fst (NewSession example_world)"

definition example_start :: world where
  "example_start = snd (NewSession example_world)"

definition example_date :: Time where
  "example_date = \<lparr>ISOWeek = (2024, 10), Format_20060102 = ''20240304''\<rparr>"

definition text_element :: "string \<Rightarrow> element" where
  "text_element t = \<lparr>elem_Text = t, elem_Html = t\<rparr>"

definition week_tile :: "string \<Rightarrow> string \<Rightarrow> string \<Rightarrow> tile" where
  "week_tile kw yr oc =
     \<lparr>onclick = Some oc, div_sKW = [text_element kw],
      div_KW = [text_element (''KW'' @ kw @ yr)],
      div_KW_div = [text_element ''KW'', text_element kw, text_element yr]\<rparr>"

definition container :: "string \<Rightarrow> string \<Rightarrow> string \<Rightarrow> string \<Rightarrow> day_entry" where
  "container seq dur art txt =
     \<lparr>data_seq = Some seq, div_row2_d4 = [text_element dur],
      div_row1_d3 = [text_element art], div_row7_d5 = [text_element txt]\<rparr>"

definition empty_page :: page where
  "empty_page =
     \<lparr>VIEWSTATE = None, VIEWSTATEGENERATOR = None, EVENTVALIDATION = None,
      NBox = [], d0_mo = [], divSchulfach = None\<rparr>"

definition ok_response :: "page \<Rightarrow> Response" where
  "ok_response p =
     \<lparr>StatusCode = 200, Location = [], SetCookies = [], RespBody = [], ReadFails = False,
      Document = p\<rparr>"

definition example_site :: "tile list \<Rightarrow> day_entry list \<Rightarrow> Request list \<Rightarrow> Request \<Rightarrow> reply" where
  "example_site tiles entries history req =
     (if Method req = GET \<and> URL req = overview_URL
        then Reply (ok_response (empty_page\<lparr>NBox := tiles\<rparr>))
      else if Method req = GET \<and> URL req = day_URL ''20240304''
        then Reply (ok_response (empty_page\<lparr>d0_mo := entries\<rparr>))
      else if Method req = POST
        then Reply (ok_response empty_page)
      else NoReply)"

definition example_env :: "tile list \<Rightarrow> day_entry list \<Rightarrow> env" where
  "example_env tiles entries =
     \<lparr>remote = example_site tiles entries, unix_now = (\<lambda>history. 1709546400),
      url_Parse_ok = (\<lambda>u. True),
      time_Parse = (\<lambda>d. if d = ''2024-03-04'' then Some example_date else None)\<rparr>"

definition example_entries :: "day_entry list" where
  "example_entries =
     [container ''7'' '' 01:30 '' ''Art: Betrieb'' ''hello'',
      container ''8'' ''00:00'' ''Art: Schule'' [],
      container ''9'' ''02:00'' ''Art: Schule'' '' world '']"


text \<open>
  An overview page with two tiles for week 10 of 2024 and one for week 11, and one whose
  only tile for week 10 has an \<open>onclick\<close> without an identifier.
\<close>

definition two_tiles :: "tile list" where
  "two_tiles =
     [week_tile ''10'' ''2024'' ''window.location.href=(Nachweis.aspx?NachweisNr=111);'',
      week_tile '' 10 '' ''2024'' ''window.location.href=(Nachweis.aspx?NachweisNr=222);'',
      week_tile ''11'' ''2024'' ''window.location.href=(Nachweis.aspx?NachweisNr=333);'']"

definition unidentified_tile :: "tile list" where
  "unidentified_tile = [week_tile ''10'' ''2024'' ''return false'']"




text \<open>
  A remote application that answers the request for the report page of 4 March 2024 by
  a redirect to its login page (as for a session that has expired), and the request
  for the report page as the client issues it.
\<close>

definition moved_site :: "Request list \<Rightarrow> Request \<Rightarrow> reply" where
  "moved_site history req =
     (if URL req = day_URL ''20240304''
        then Reply \<lparr>StatusCode = 302, Location = baseURL @ ''/Login.aspx'', SetCookies = [],
                    RespBody = [], ReadFails = False, Document = empty_page\<rparr>
      else if URL req = baseURL @ ''/Login.aspx''
        then Reply (ok_response empty_page)
      else NoReply)"

definition moved_env :: env where
  "moved_env =
     \<lparr>remote = moved_site, unix_now = (\<lambda>history. 1709546400), url_Parse_ok = (\<lambda>u. True),
      time_Parse = (\<lambda>d. if d = ''2024-03-04'' then Some example_date else None)\<rparr>"

definition day_request :: Request where
  "day_request =
     \<lparr>Method = GET, URL = day_URL ''20240304'', Header = [], Cookies = [], Body = [], Via = 0\<rparr>"

text \<open>
  A remote application that answers every request by a redirect to its login page, and
  one whose redirects carry a \<open>Location\<close> that \<open>url.Parse\<close> refuses (a colon with no
  scheme before it).
\<close>

definition always_moved_site :: "Request list \<Rightarrow> Request \<Rightarrow> reply" where
  "always_moved_site history req =
     Reply \<lparr>StatusCode = 302, Location = baseURL @ ''/Login.aspx'', SetCookies = [],
            RespBody = [], ReadFails = False, Document = empty_page\<rparr>"

definition always_moved_env :: env where
  "always_moved_env =
     \<lparr>remote = always_moved_site, unix_now = (\<lambda>history. 1709546400), url_Parse_ok = (\<lambda>u. True),
      time_Parse = (\<lambda>d. if d = ''2024-03-04'' then Some example_date else None)\<rparr>"

definition bad_location_site :: "Request list \<Rightarrow> Request \<Rightarrow> reply" where
  "bad_location_site history req =
     Reply \<lparr>StatusCode = 302, Location = '':'', SetCookies = [],
            RespBody = [], ReadFails = False, Document = empty_page\<rparr>"

definition bad_location_env :: env where
  "bad_location_env =
     \<lparr>remote = bad_location_site, unix_now = (\<lambda>history. 1709546400),
      url_Parse_ok = (\<lambda>u. u \<noteq> '':''),
      time_Parse = (\<lambda>d. if d = ''2024-03-04'' then Some example_date else None)\<rparr>"

text \<open>
  A remote application to log in to: its login page carries the three hidden fields,
  a POST to it sets a session cookie, the landing page shows the logout control to a
  request that carries the cookie, and the subject page lists one custom subject.
  \<open>write_arguments\<close> are the arguments of a call of the tool \<open>azubiheft_write_report\<close>
  that leaves \<open>session_id\<close> out.
\<close>

definition login_site :: "Request list \<Rightarrow> Request \<Rightarrow> reply" where
  "login_site history req =
     (if Method req = GET \<and> URL req = baseURL @ ''/Login.aspx''
        then Reply (ok_response (empty_page\<lparr>VIEWSTATE := Some ''dDwtMTA4'',
                     VIEWSTATEGENERATOR := Some ''C2EE9ABB'', EVENTVALIDATION := Some ''AbCd''\<rparr>))
      else if Method req = POST \<and> URL req = baseURL @ ''/Login.aspx''
        then Reply ((ok_response empty_page)\<lparr>SetCookies := [(''ASP.NET_SessionId'', ''k3'')]\<rparr>)
      else if Method req = GET \<and> URL req = baseURL @ ''/Azubi/Default.aspx''
        then Reply ((ok_response empty_page)
                      \<lparr>RespBody := (if (''ASP.NET_SessionId'', ''k3'') \<in> set (Cookies req)
                                    then ''<a '' @ Abmelden_marker @ ''>Abmelden</a>''
                                    else ''<a>Anmelden</a>'')\<rparr>)
      else if Method req = GET \<and> URL req = baseURL @ ''/Azubi/SetupSchulfach.aspx''
        then Reply (ok_response (empty_page
                      \<lparr>divSchulfach := Some [\<lparr>data_default = Some ''1700000000'',
                                               input_value = Some ''Projekt''\<rparr>]\<rparr>))
      else NoReply)"

definition login_env :: env where
  "login_env =
     \<lparr>remote = login_site, unix_now = (\<lambda>history. 1709546400), url_Parse_ok = (\<lambda>u. True),
      time_Parse = (\<lambda>d. if d = ''2024-03-04'' then Some example_date else None)\<rparr>"

definition write_arguments :: arguments where
  "write_arguments =
     [''date'' \<mapsto> JString ''2024-03-04'', ''message'' \<mapsto> JString ''hello'',
      ''time_spent'' \<mapsto> JString ''01:30'', ''entry_type'' \<mapsto> JNumber 2]"

section \<open>Properties of the library functions\<close>









section \<open>The requests an operation sends\<close>

lemma send_sent:
  "send env c req w = (r, w1) \<Longrightarrow> \<exists>q. trace w1 = trace w @ [q] \<and> same_request q req"
  by (auto simp: send_def Let_def same_request_def split: reply.splits option.splits)

lemma redirectBehavior_method:
  "redirectBehavior m resp = Some (m', b) \<Longrightarrow> m' = GET \<or> m' = m"
  by (auto simp: redirectBehavior_def split: if_splits)

lemma do_loop_sent:
  "do_loop n env c ireq req reqs ib w = Some (r, w') \<Longrightarrow>
     \<exists>q hops. trace w' = trace w @ q # hops \<and> same_request q req
       \<and> (\<forall>h \<in> set hops. 0 < Via h \<and> (Method h = GET \<or> Method h = Method req))"
proof (induction n arbitrary: req reqs ib w)
  case 0
  then show ?case by simp
next
  case (Suc n)
  obtain r1 w1 where s: "send env c req w = (r1, w1)" by (cases "send env c req w")
  from send_sent [OF s] obtain q where q: "trace w1 = trace w @ [q]" "same_request q req"
    by blast
  show ?case
  proof (cases r1)
    case (Inl err)
    with Suc.prems s have "w' = w1" by simp
    with q show ?thesis by auto
  next
    case (Inr resp)
    show ?thesis
    proof (cases "redirectBehavior (Method req) resp")
      case None
      with Suc.prems s Inr have "w' = w1" by simp
      with q show ?thesis by auto
    next
      case (Some mb)
      obtain m b where mb: "mb = (m, b)" by (cases mb)
      from Some mb have m: "m = GET \<or> m = Method req" by (auto dest: redirectBehavior_method)
      define nxt where "nxt = \<lparr>Method = m, URL = Location resp, Header = hop_Header (Header ireq) (ib \<and> b), Cookies = [],
                             Body = (if ib \<and> b then Body ireq else []), Via = Suc (length reqs)\<rparr>"
      show ?thesis
      proof (cases "Location resp \<noteq> [] \<and> url_Parse_ok env (Location resp)
                     \<and> checkRedirect c nxt (reqs @ [req]) = None")
        case False
        with Suc.prems s Inr Some mb have "w' = w1"
          by (auto simp: Let_def nxt_def split: if_splits option.splits)
        with q show ?thesis by auto
      next
        case True
        with Suc.prems s Inr Some mb have
          "do_loop n env c ireq nxt (reqs @ [req]) (ib \<and> b) w1 = Some (r, w')"
          by (simp add: Let_def nxt_def)
        from Suc.IH [OF this] obtain q' hops where
          h: "trace w' = trace w1 @ q' # hops" "same_request q' nxt"
             "\<forall>h \<in> set hops. 0 < Via h \<and> (Method h = GET \<or> Method h = Method nxt)"
          by blast
        from h(2) have "0 < Via q'" "Method q' = m" by (simp_all add: same_request_def nxt_def)
        with h q m have "trace w' = trace w @ q # (q' # hops) \<and> same_request q req
           \<and> (\<forall>h \<in> set (q' # hops). 0 < Via h \<and> (Method h = GET \<or> Method h = Method req))"
          by (auto simp: nxt_def)
        then show ?thesis by blast
      qed
    qed
  qed
qed

lemma client_Do_sent:
  "client_Do n env c req w = Some (r, w') \<Longrightarrow>
     \<exists>q hops. trace w' = trace w @ q # hops \<and> same_request q req
       \<and> (\<forall>h \<in> set hops. 0 < Via h \<and> (Method h = GET \<or> Method h = Method req))"
  unfolding client_Do_def by (rule do_loop_sent)

lemma client_Get_sent:
  assumes "client_Get n env c u w = Some (r, w')"
  shows "\<exists>rs. trace w' = trace w @ rs \<and> (\<forall>q \<in> set rs. Method q = GET)
           \<and> (\<forall>q \<in> set (filter (\<lambda>q. Via q = 0) rs). URL q = u)"
proof (cases "url_Parse_ok env u")
  case False
  with assms have "w' = w" by (simp add: client_Get_def NewRequest_def)
  then show ?thesis by simp
next
  case True
  with assms have "client_Do n env c \<lparr>Method = GET, URL = u, Header = [], Cookies = [], Body = [], Via = 0\<rparr> w = Some (r, w')"
    by (simp add: client_Get_def NewRequest_def)
  from client_Do_sent [OF this] obtain q hops where
    "trace w' = trace w @ q # hops"
    "same_request q \<lparr>Method = GET, URL = u, Header = [], Cookies = [], Body = [], Via = 0\<rparr>"
    "\<forall>h \<in> set hops. 0 < Via h \<and> (Method h = GET \<or> Method h = GET)"
    by fastforce
  then have "trace w' = trace w @ (q # hops) \<and> (\<forall>q \<in> set (q # hops). Method q = GET)
           \<and> (\<forall>q \<in> set (filter (\<lambda>q. Via q = 0) (q # hops)). URL q = u)"
    by (auto simp: same_request_def)
  then show ?thesis by blast
qed


lemma sentI: "trace w' = trace w @ rs \<Longrightarrow> sent w w' = rs"
  by (simp add: sent_def)

lemma sent_refl: "sent w w = []"
  by (simp add: sent_def)





lemma GetReport_sent:
  assumes "GetReport n env s date f w = Some (r, w')"
  shows "\<exists>rs. trace w' = trace w @ rs \<and> (\<forall>q \<in> set rs. Method q = GET)
           \<and> (\<forall>q \<in> set (filter (\<lambda>q. Via q = 0) rs). URL q = day_URL (Format_20060102 date))"
proof -
  from assms obtain r1 where
    "client_Get n env (client s) (day_URL (Format_20060102 date)) w = Some (r1, w')"
    by (auto simp: GetReport_def Let_def split: option.splits sum.splits prod.splits)
  then show ?thesis by (rule client_Get_sent)
qed

lemma GetReportWeekID_sent:
  assumes "GetReportWeekID n env s date w = Some (r, w')"
  shows "\<exists>rs. trace w' = trace w @ rs \<and> (\<forall>q \<in> set rs. Method q = GET)
           \<and> (\<forall>q \<in> set (filter (\<lambda>q. Via q = 0) rs). URL q = overview_URL)"
proof -
  from assms obtain r1 where
    "client_Get n env (client s) overview_URL w = Some (r1, w')"
    by (auto simp: GetReportWeekID_def Let_def split: option.splits sum.splits prod.splits if_splits)
  then show ?thesis by (rule client_Get_sent)
qed



lemma Header_Set_fields [simp]:
  "Method (Header_Set req k v) = Method req"
  "URL (Header_Set req k v) = URL req"
  "Body (Header_Set req k v) = Body req"
  "Via (Header_Set req k v) = Via req"
  by (simp_all add: Header_Set_def Let_def)

lemma delete_headers_fields [simp]:
  "Method (delete_headers req) = Method req"
  "URL (delete_headers req) = URL req"
  "Body (delete_headers req) = Body req"
  "Via (delete_headers req) = Via req"
  by (simp_all add: delete_headers_def)

lemma write_headers_fields [simp]:
  "Method (write_headers req) = Method req"
  "URL (write_headers req) = URL req"
  "Body (write_headers req) = Body req"
  "Via (write_headers req) = Via req"
  by (simp_all add: write_headers_def)


section \<open>Properties of GetReport\<close>

lemma day_entry_step_eq:
  "day_entry_step f entries entry =
     (if container_duration entry = ''00:00'' then entries
      else entries @ [container_entry f entry])"
  by (simp add: day_entry_step_def container_duration_def container_entry_def Let_def)

lemma foldl_day_entry_step:
  "foldl (day_entry_step f) acc ds =
     acc @ map (container_entry f) (filter (\<lambda>d. container_duration d \<noteq> ''00:00'') ds)"
  by (induction ds arbitrary: acc) (simp_all add: day_entry_step_eq)

lemma GetReport_entries:
  assumes "GetReport n env s date f w = Some (Inr entries, w')"
  shows "\<exists>resp. client_Get n env (client s) (day_URL (Format_20060102 date)) w = Some (Inr resp, w')
           \<and> \<not> ReadFails resp
           \<and> entries = map (container_entry f)
                 (filter (\<lambda>d. container_duration d \<noteq> ''00:00'') (d0_mo (Document resp)))"
  using assms
  by (auto simp: GetReport_def Let_def NewDocumentFromReader_def foldl_day_entry_step
           split: option.splits sum.splits prod.splits if_splits)

lemma example_day:
  "\<exists>w'. client_Get 1 (example_env tiles entries) (client example_session)
           (day_URL ''20240304'') w
         = Some (Inr (ok_response (empty_page\<lparr>d0_mo := entries\<rparr>)), w')"
  by (simp add: client_Get_def NewRequest_def example_env_def client_Do_def send_def
        example_site_def redirectBehavior_def ok_response_def Let_def example_session_def
        NewSession_def example_world_def day_URL_def overview_URL_def baseURL_def)

lemma example_GetReport:
  "\<exists>w'. GetReport 1 (example_env tiles example_entries) example_session example_date False w
         = Some (Inr [\<lparr>Seq = ''7'', Type = ''Betrieb'', Duration = ''01:30'', Text = ''hello''\<rparr>,
                      \<lparr>Seq = ''9'', Type = ''Schule'', Duration = ''02:00'', Text = ''world''\<rparr>], w')"
proof -
  from example_day obtain w' where
    "client_Get 1 (example_env tiles example_entries) (client example_session)
       (day_URL ''20240304'') w
     = Some (Inr (ok_response (empty_page\<lparr>d0_mo := example_entries\<rparr>)), w')"
    by blast
  moreover have "foldl (day_entry_step False) [] example_entries
      = [\<lparr>Seq = ''7'', Type = ''Betrieb'', Duration = ''01:30'', Text = ''hello''\<rparr>,
         \<lparr>Seq = ''9'', Type = ''Schule'', Duration = ''02:00'', Text = ''world''\<rparr>]"
    by code_simp
  ultimately show ?thesis
    by (simp add: GetReport_def example_date_def NewDocumentFromReader_def ok_response_def
          empty_page_def)
qed

text \<open>
  C3. Whatever the date and the formatting mode, the list \<open>GetReport\<close> returns is the
  extraction of exactly the day-entry containers whose duration is not \<open>00:00\<close>, in
  document order: those with \<open>00:00\<close> are skipped, and no returned entry has that duration.
\<close>

theorem GetReport_no_zero_duration:
  assumes "GetReport n env s date includeFormatting w = Some (Inr entries, w')"
  shows "(\<forall>e \<in> set entries. Duration e \<noteq> ''00:00'')
         \<and> (\<exists>resp. client_Get n env (client s) (day_URL (Format_20060102 date)) w
                      = Some (Inr resp, w')
                \<and> entries = map (container_entry includeFormatting)
                      (filter (\<lambda>d. container_duration d \<noteq> ''00:00'') (d0_mo (Document resp))))"
proof -
  from GetReport_entries [OF assms] obtain resp where
    r: "client_Get n env (client s) (day_URL (Format_20060102 date)) w = Some (Inr resp, w')"
    and e: "entries = map (container_entry includeFormatting)
                 (filter (\<lambda>d. container_duration d \<noteq> ''00:00'') (d0_mo (Document resp)))"
    by blast
  from e have "\<forall>e \<in> set entries. Duration e \<noteq> ''00:00''"
    by (auto simp: container_entry_def)
  with r e show ?thesis by blast
qed

theorem GetReport_no_zero_duration_witness:
  "\<exists>w'. GetReport 1 (example_env [] example_entries) example_session example_date False
           example_start
         = Some (Inr [\<lparr>Seq = ''7'', Type = ''Betrieb'', Duration = ''01:30'', Text = ''hello''\<rparr>,
                      \<lparr>Seq = ''9'', Type = ''Schule'', Duration = ''02:00'', Text = ''world''\<rparr>], w')
       \<and> list_all (\<lambda>e. Duration e \<noteq> ''00:00'')
            [\<lparr>Seq = ''7'', Type = ''Betrieb'', Duration = ''01:30'', Text = ''hello''\<rparr>,
             \<lparr>Seq = ''9'', Type = ''Schule'', Duration = ''02:00'', Text = ''world''\<rparr>]"
proof -
  from example_GetReport [of "[]" example_start] obtain w' where
    g: "GetReport 1 (example_env [] example_entries) example_session example_date False
          example_start
        = Some (Inr [\<lparr>Seq = ''7'', Type = ''Betrieb'', Duration = ''01:30'', Text = ''hello''\<rparr>,
                     \<lparr>Seq = ''9'', Type = ''Schule'', Duration = ''02:00'', Text = ''world''\<rparr>], w')"
    by blast
  from GetReport_no_zero_duration [OF g] have
    "list_all (\<lambda>e. Duration e \<noteq> ''00:00'')
       [\<lparr>Seq = ''7'', Type = ''Betrieb'', Duration = ''01:30'', Text = ''hello''\<rparr>,
        \<lparr>Seq = ''9'', Type = ''Schule'', Duration = ''02:00'', Text = ''world''\<rparr>]"
    by (simp only: list_all_iff) blast
  with g show ?thesis by blast
qed

section \<open>Properties of WriteReport\<close>

text \<open>
  C2. Whatever the date, the message and the subject, \<open>WriteReport\<close> with the duration
  \<open>00:00\<close> returns success (no error) and leaves the world as it was: no request is sent.
\<close>

theorem WriteReport_zero_duration:
  "WriteReport n env s date message ''00:00'' entryType w = Some (None, w)"
  by (simp add: WriteReport_def)

section \<open>Properties of GetReportWeekID\<close>

lemma week_tile_step_eq:
  "week_tile_step year week weekID sel =
     (if tile_matches year week sel \<and> tile_id sel \<noteq> None then the (tile_id sel) else weekID)"
  by (auto simp: week_tile_step_def tile_matches_def tile_week_year_def tile_id_def
           split: option.splits)

lemma foldl_week_tile_step:
  "foldl (week_tile_step year week) acc tiles =
     (case last_identified_match year week tiles of None \<Rightarrow> acc | Some sel \<Rightarrow> the (tile_id sel))"
proof (induction tiles rule: rev_induct)
  case Nil
  show ?case by (simp add: last_identified_match_def)
next
  case (snoc sel tiles)
  then show ?case
    by (auto simp add: last_identified_match_def week_tile_step_eq)
qed

lemma FindStringSubmatch_NachweisNr_nonempty:
  "FindStringSubmatch_NachweisNr s = Some m \<Longrightarrow> m \<noteq> []"
  by (induction s) (auto split: if_splits)

lemma tile_id_nonempty: "tile_id sel = Some m \<Longrightarrow> m \<noteq> []"
  by (auto simp: tile_id_def FindStringSubmatch_NachweisNr_nonempty split: option.splits)

lemma GetReportWeekID_result:
  assumes "client_Get n env (client s) overview_URL w = Some (Inr resp, w')"
    and "\<not> ReadFails resp"
  shows "GetReportWeekID n env s date w =
           Some ((case last_identified_match (fst (ISOWeek date)) (snd (ISOWeek date))
                         (NBox (Document resp)) of
                    None \<Rightarrow> Inl (Errorf ''no report found for week %d/%d''
                                   [ArgInt (snd (ISOWeek date)), ArgInt (fst (ISOWeek date))])
                  | Some sel \<Rightarrow> Inr (the (tile_id sel))), w')"
proof (cases "last_identified_match (fst (ISOWeek date)) (snd (ISOWeek date))
                (NBox (Document resp))")
  case None
  with assms show ?thesis
    by (simp add: GetReportWeekID_def NewDocumentFromReader_def foldl_week_tile_step Let_def)
next
  case (Some sel)
  then have "tile_id sel \<noteq> None"
    by (auto simp: last_identified_match_def find_Some_iff)
  then obtain m where m: "tile_id sel = Some m" by blast
  then have "m \<noteq> []" by (rule tile_id_nonempty)
  with assms Some m show ?thesis
    by (simp add: GetReportWeekID_def NewDocumentFromReader_def foldl_week_tile_step Let_def)
qed

lemma example_overview:
  "\<exists>w'. client_Get 1 (example_env tiles entries) (client example_session) overview_URL w
         = Some (Inr (ok_response (empty_page\<lparr>NBox := tiles\<rparr>)), w')"
  by (simp add: client_Get_def NewRequest_def example_env_def client_Do_def send_def
        example_site_def redirectBehavior_def ok_response_def Let_def example_session_def
        NewSession_def example_world_def)

lemma example_GetReportWeekID:
  "\<exists>w'. GetReportWeekID 1 (example_env two_tiles entries) example_session example_date w
         = Some (Inr ''222'', w')"
proof -
  from example_overview [of two_tiles entries w] obtain w' where
    g: "client_Get 1 (example_env two_tiles entries) (client example_session) overview_URL w
        = Some (Inr (ok_response (empty_page\<lparr>NBox := two_tiles\<rparr>)), w')"
    by blast
  have r: "\<not> ReadFails (ok_response (empty_page\<lparr>NBox := two_tiles\<rparr>))"
    by (simp add: ok_response_def)
  have "(case last_identified_match (fst (ISOWeek example_date)) (snd (ISOWeek example_date))
                (NBox (Document (ok_response (empty_page\<lparr>NBox := two_tiles\<rparr>)))) of
           None \<Rightarrow> Inl (Errorf ''no report found for week %d/%d''
                          [ArgInt (snd (ISOWeek example_date)),
                           ArgInt (fst (ISOWeek example_date))])
         | Some sel \<Rightarrow> Inr (the (tile_id sel))) = Inr ''222''"
    by code_simp
  with GetReportWeekID_result [OF g r, of example_date] show ?thesis by simp
qed

text \<open>
  C1, as the code has it. When the overview page is fetched and read, \<open>GetReportWeekID\<close>
  returns the identifier carried by the last week tile, in document order, whose week
  number and year equal the ISO week and year of the date and whose \<open>onclick\<close> holds
  \<open>NachweisNr=\<close> and digits; it fails with the not-found error when there is no such tile.
\<close>

theorem GetReportWeekID_last_match:
  assumes "client_Get n env (client s) overview_URL w = Some (Inr resp, w')"
    and "\<not> ReadFails resp"
  shows "GetReportWeekID n env s date w =
           Some ((case last_identified_match (fst (ISOWeek date)) (snd (ISOWeek date))
                         (NBox (Document resp)) of
                    None \<Rightarrow> Inl (Errorf ''no report found for week %d/%d''
                                   [ArgInt (snd (ISOWeek date)), ArgInt (fst (ISOWeek date))])
                  | Some sel \<Rightarrow> Inr (the (tile_id sel))), w')"
  using assms by (rule GetReportWeekID_result)

theorem GetReportWeekID_last_match_witness:
  "\<exists>w'. GetReportWeekID 1 (example_env two_tiles []) example_session example_date example_start
         = Some (Inr ''222'', w')"
proof -
  from example_overview [of two_tiles "[]" example_start] obtain w' where
    g: "client_Get 1 (example_env two_tiles []) (client example_session) overview_URL
          example_start
        = Some (Inr (ok_response (empty_page\<lparr>NBox := two_tiles\<rparr>)), w')"
    by blast
  have r: "\<not> ReadFails (ok_response (empty_page\<lparr>NBox := two_tiles\<rparr>))"
    by (simp add: ok_response_def)
  have "(case last_identified_match (fst (ISOWeek example_date)) (snd (ISOWeek example_date))
                (NBox (Document (ok_response (empty_page\<lparr>NBox := two_tiles\<rparr>)))) of
           None \<Rightarrow> Inl (Errorf ''no report found for week %d/%d''
                          [ArgInt (snd (ISOWeek example_date)),
                           ArgInt (fst (ISOWeek example_date))])
         | Some sel \<Rightarrow> Inr (the (tile_id sel))) = Inr ''222''"
    by code_simp
  with GetReportWeekID_last_match [OF g r, of example_date] show ?thesis by simp
qed

text \<open>
  C1 as stated fails twice. With two tiles for the week, the identifier returned is the
  second one's, not the first one's; and a tile that matches but carries no identifier
  leaves the call failing with the not-found error although a tile matches.
\<close>

theorem GetReportWeekID_first_match_counterexample:
  "map_option fst (GetReportWeekID 1 (example_env two_tiles []) example_session example_date
                     example_start) = Some (Inr ''222'')
   \<and> spec_first_matching_id 2024 10 two_tiles = Some ''111''
   \<and> map_option fst (GetReportWeekID 1 (example_env unidentified_tile []) example_session
                       example_date example_start)
       = Some (Inl (Errorf ''no report found for week %d/%d'' [ArgInt 10, ArgInt 2024]))
   \<and> list_ex (tile_matches 2024 10) unidentified_tile"
  by code_simp

section \<open>Properties of DeleteReport\<close>

lemma DeleteReport_after_lookup:
  assumes "GetReport n env s date False w = Some (Inr reports, w1)"
    and "reports \<noteq> []"
    and "GetReportWeekID n env s date w1 = Some (res, w2)"
  shows "DeleteReport n env s date entryNumber w =
           (case res of
              Inl err \<Rightarrow> Some (Some err, w2)
            | Inr weekID \<Rightarrow>
                (case entryNumber of
                   None \<Rightarrow>
                     delete_entries n env s
                       (ajax_URL (Format_20060102 date) weekID (unix_now env (trace w2))) reports w2
                 | Some k \<Rightarrow>
                     if k < 1 \<or> k > int (length reports)
                     then Some (Some (Errorf ''invalid entry number: %d'' [ArgInt k]), w2)
                     else delete_entries n env s
                            (ajax_URL (Format_20060102 date) weekID (unix_now env (trace w2)))
                            [reports ! nat (k - 1)] w2))"
  using assms by (simp add: DeleteReport_def Let_def split: sum.splits option.splits)

lemma delete_entries_error:
  "delete_entries n env s reqURL es w = Some (Some (Errorf fmt args), w') \<Longrightarrow>
     fmt \<noteq> ''invalid entry number: %d''"
  by (induction es arbitrary: w)
     (auto simp: NewRequest_def split: option.splits sum.splits if_splits prod.splits)

lemma GetReport_error:
  "GetReport n env s date f w = Some (Inl (Errorf fmt args), w') \<Longrightarrow>
     fmt \<noteq> ''invalid entry number: %d''"
  by (auto simp: GetReport_def Let_def split: option.splits sum.splits if_splits prod.splits)

lemma GetReportWeekID_error:
  "GetReportWeekID n env s date w = Some (Inl (Errorf fmt args), w') \<Longrightarrow>
     fmt \<noteq> ''invalid entry number: %d''"
  by (auto simp: GetReportWeekID_def Let_def split: option.splits sum.splits if_splits prod.splits)

lemma DeleteReport_invalid_entry_number_origin:
  assumes "DeleteReport n env s date (Some k) w =
             Some (Some (Errorf ''invalid entry number: %d'' args), w')"
  shows "\<exists>reports w1 weekID.
           GetReport n env s date False w = Some (Inr reports, w1) \<and> reports \<noteq> []
           \<and> GetReportWeekID n env s date w1 = Some (Inr weekID, w')
           \<and> (k < 1 \<or> int (length reports) < k) \<and> args = [ArgInt k]"
proof -
  from assms obtain g w1 where g: "GetReport n env s date False w = Some (g, w1)"
    by (cases "GetReport n env s date False w") (auto simp: DeleteReport_def)
  show ?thesis
  proof (cases g)
    case (Inl err)
    with assms g have "Some (Some err, w1) = Some (Some (Errorf ''invalid entry number: %d'' args), w')"
      by (simp add: DeleteReport_def)
    with g Inl GetReport_error show ?thesis by blast
  next
    case (Inr reports)
    show ?thesis
    proof (cases "reports = []")
      case True
      with assms g Inr show ?thesis by (simp add: DeleteReport_def)
    next
      case False
      from assms g Inr False obtain res w2 where
        l: "GetReportWeekID n env s date w1 = Some (res, w2)"
        by (cases "GetReportWeekID n env s date w1") (auto simp: DeleteReport_def)
      note u = DeleteReport_after_lookup [OF g [unfolded Inr] False l, of "Some k"]
      show ?thesis
      proof (cases res)
        case (Inl err)
        with u assms have "err = Errorf ''invalid entry number: %d'' args" "w2 = w'" by simp_all
        with l Inl GetReportWeekID_error show ?thesis by blast
      next
        case (Inr weekID)
        show ?thesis
        proof (cases "k < 1 \<or> int (length reports) < k")
          case True
          with u assms Inr have "w2 = w'" "args = [ArgInt k]" by auto
          with g \<open>g = Inr reports\<close> False l Inr True show ?thesis by blast
        next
          case False
          with u assms Inr have
            "delete_entries n env s (ajax_URL (Format_20060102 date) weekID (unix_now env (trace w2)))
               [reports ! nat (k - 1)] w2 = Some (Some (Errorf ''invalid entry number: %d'' args), w')"
            by auto
          with delete_entries_error show ?thesis by blast
        qed
      qed
    qed
  qed
qed

text \<open>
  C4, as the code has it. When the report page of the date yields a non-empty entry list
  and the week lookup returns, \<open>DeleteReport\<close> with an entry number below 1 or above the
  number of entries fails: with the error \<open>invalid entry number\<close> when the lookup
  succeeded, with the lookup's error otherwise. Either way every request sent during the
  call is a GET: no deletion is posted.
\<close>

theorem DeleteReport_out_of_range:
  assumes "GetReport n env s date False w = Some (Inr reports, w1)"
    and "reports \<noteq> []"
    and "GetReportWeekID n env s date w1 = Some (res, w2)"
    and "k < 1 \<or> int (length reports) < k"
  shows "DeleteReport n env s date (Some k) w =
           Some (Some (case res of
                         Inl err \<Rightarrow> err
                       | Inr weekID \<Rightarrow> Errorf ''invalid entry number: %d'' [ArgInt k]), w2)
         \<and> (\<forall>q \<in> set (sent w w2). Method q = GET)"
proof -
  from GetReport_sent [OF assms(1)] obtain rs1 where
    a: "trace w1 = trace w @ rs1" "\<forall>q \<in> set rs1. Method q = GET" by blast
  from GetReportWeekID_sent [OF assms(3)] obtain rs2 where
    b: "trace w2 = trace w1 @ rs2" "\<forall>q \<in> set rs2. Method q = GET" by blast
  from a b have "sent w w2 = rs1 @ rs2" by (simp add: sent_def)
  with a b have "\<forall>q \<in> set (sent w w2). Method q = GET" by auto
  moreover from DeleteReport_after_lookup [OF assms(1-3), of "Some k"] assms(4)
  have "DeleteReport n env s date (Some k) w =
           Some (Some (case res of
                         Inl err \<Rightarrow> err
                       | Inr weekID \<Rightarrow> Errorf ''invalid entry number: %d'' [ArgInt k]), w2)"
    by (auto split: sum.splits)
  ultimately show ?thesis by blast
qed

theorem DeleteReport_out_of_range_witness:
  "\<exists>w2. DeleteReport 1 (example_env two_tiles example_entries) example_session example_date
            (Some 5) example_start
          = Some (Some (Errorf ''invalid entry number: %d'' [ArgInt 5]), w2)
        \<and> list_all (\<lambda>q. Method q = GET) (sent example_start w2)"
proof -
  from example_GetReport [of two_tiles example_start] obtain w1 where
    g: "GetReport 1 (example_env two_tiles example_entries) example_session example_date False
          example_start
        = Some (Inr [\<lparr>Seq = ''7'', Type = ''Betrieb'', Duration = ''01:30'', Text = ''hello''\<rparr>,
                     \<lparr>Seq = ''9'', Type = ''Schule'', Duration = ''02:00'', Text = ''world''\<rparr>], w1)"
    by blast
  from example_GetReportWeekID [of example_entries w1] obtain w2 where
    l: "GetReportWeekID 1 (example_env two_tiles example_entries) example_session example_date w1
        = Some (Inr ''222'', w2)"
    by blast
  have ne: "[\<lparr>Seq = ''7'', Type = ''Betrieb'', Duration = ''01:30'', Text = ''hello''\<rparr>,
             \<lparr>Seq = ''9'', Type = ''Schule'', Duration = ''02:00'', Text = ''world''\<rparr>] \<noteq> []"
    by simp
  have k: "(5::int) < 1 \<or> int (length
            [\<lparr>Seq = ''7'', Type = ''Betrieb'', Duration = ''01:30'', Text = ''hello''\<rparr>,
             \<lparr>Seq = ''9'', Type = ''Schule'', Duration = ''02:00'', Text = ''world''\<rparr>]) < 5"
    by simp
  from DeleteReport_out_of_range [OF g ne l k] show ?thesis
    by (auto simp: list_all_iff)
qed

text \<open>
  C4 as stated fails: the report page has two entries, the overview page has no tile for
  the week, and \<open>DeleteReport\<close> with entry number 5 fails with the not-found error of the
  week lookup, not with the validation error.
\<close>

theorem DeleteReport_out_of_range_counterexample:
  "map_option fst (GetReport 1 (example_env [] example_entries) example_session example_date
                     False example_start)
     = Some (Inr [\<lparr>Seq = ''7'', Type = ''Betrieb'', Duration = ''01:30'', Text = ''hello''\<rparr>,
                  \<lparr>Seq = ''9'', Type = ''Schule'', Duration = ''02:00'', Text = ''world''\<rparr>])
   \<and> map_option fst (DeleteReport 1 (example_env [] example_entries) example_session
                       example_date (Some 5) example_start)
     = Some (Some (Errorf ''no report found for week %d/%d'' [ArgInt 10, ArgInt 2024]))"
  by code_simp

text \<open>
  C10. With a non-nil entry number and a non-empty entry list, the week lookup comes
  before the range check. First: when the overview page is read and no tile matches the
  week, the call fails with the not-found error of the lookup, whatever the entry
  number, in range or not. Second: the call returns the error \<open>invalid entry number\<close>
  only when the report fetch has succeeded with a non-empty list and the week lookup
  after it has succeeded too; the call then ends in the world the lookup left.
\<close>

theorem DeleteReport_lookup_before_range_check:
  "(GetReport n env s date False w = Some (Inr reports, w1) \<and> reports \<noteq> []
      \<and> client_Get n env (client s) overview_URL w1 = Some (Inr resp, w2) \<and> \<not> ReadFails resp
      \<and> last_identified_match (fst (ISOWeek date)) (snd (ISOWeek date)) (NBox (Document resp))
          = None
    \<longrightarrow> DeleteReport n env s date (Some k) w
          = Some (Some (Errorf ''no report found for week %d/%d''
                          [ArgInt (snd (ISOWeek date)), ArgInt (fst (ISOWeek date))]), w2))
   \<and> (DeleteReport n env s date (Some k) w
         = Some (Some (Errorf ''invalid entry number: %d'' args), w')
       \<longrightarrow> (\<exists>reports w1 weekID.
              GetReport n env s date False w = Some (Inr reports, w1) \<and> reports \<noteq> []
              \<and> GetReportWeekID n env s date w1 = Some (Inr weekID, w')
              \<and> (k < 1 \<or> int (length reports) < k) \<and> args = [ArgInt k]))"
proof (intro conjI impI)
  assume a: "GetReport n env s date False w = Some (Inr reports, w1) \<and> reports \<noteq> []
      \<and> client_Get n env (client s) overview_URL w1 = Some (Inr resp, w2) \<and> \<not> ReadFails resp
      \<and> last_identified_match (fst (ISOWeek date)) (snd (ISOWeek date)) (NBox (Document resp))
          = None"
  then have g: "GetReport n env s date False w = Some (Inr reports, w1)"
    and ne: "reports \<noteq> []"
    and c: "client_Get n env (client s) overview_URL w1 = Some (Inr resp, w2)"
    and r: "\<not> ReadFails resp"
    and m: "last_identified_match (fst (ISOWeek date)) (snd (ISOWeek date))
              (NBox (Document resp)) = None"
    by simp_all
  from GetReportWeekID_result [OF c r, of date] m have
    "GetReportWeekID n env s date w1
       = Some (Inl (Errorf ''no report found for week %d/%d''
                      [ArgInt (snd (ISOWeek date)), ArgInt (fst (ISOWeek date))]), w2)"
    by simp
  from DeleteReport_after_lookup [OF g ne this, of "Some k"]
  show "DeleteReport n env s date (Some k) w
          = Some (Some (Errorf ''no report found for week %d/%d''
                          [ArgInt (snd (ISOWeek date)), ArgInt (fst (ISOWeek date))]), w2)"
    by simp
next
  assume "DeleteReport n env s date (Some k) w
            = Some (Some (Errorf ''invalid entry number: %d'' args), w')"
  then show "\<exists>reports w1 weekID.
              GetReport n env s date False w = Some (Inr reports, w1) \<and> reports \<noteq> []
              \<and> GetReportWeekID n env s date w1 = Some (Inr weekID, w')
              \<and> (k < 1 \<or> int (length reports) < k) \<and> args = [ArgInt k]"
    by (rule DeleteReport_invalid_entry_number_origin)
qed

theorem DeleteReport_lookup_before_range_check_witness:
  "(\<exists>w2. DeleteReport 1 (example_env [] example_entries) example_session example_date (Some 1)
             example_start
           = Some (Some (Errorf ''no report found for week %d/%d'' [ArgInt 10, ArgInt 2024]), w2))
   \<and> (\<exists>reports w1 weekID w'.
         DeleteReport 1 (example_env two_tiles example_entries) example_session example_date
           (Some 5) example_start
         = Some (Some (Errorf ''invalid entry number: %d'' [ArgInt 5]), w')
         \<and> GetReport 1 (example_env two_tiles example_entries) example_session example_date
             False example_start = Some (Inr reports, w1)
         \<and> GetReportWeekID 1 (example_env two_tiles example_entries) example_session
             example_date w1 = Some (Inr weekID, w'))"
proof (rule conjI)
  from example_GetReport [of "[]" example_start] obtain w1 where
    g: "GetReport 1 (example_env [] example_entries) example_session example_date False
          example_start
        = Some (Inr [\<lparr>Seq = ''7'', Type = ''Betrieb'', Duration = ''01:30'', Text = ''hello''\<rparr>,
                     \<lparr>Seq = ''9'', Type = ''Schule'', Duration = ''02:00'', Text = ''world''\<rparr>], w1)"
    by blast
  from example_overview [of "[]" example_entries w1] obtain w2 where
    c: "client_Get 1 (example_env [] example_entries) (client example_session) overview_URL w1
        = Some (Inr (ok_response (empty_page\<lparr>NBox := []\<rparr>)), w2)"
    by blast
  have m: "\<not> ReadFails (ok_response (empty_page\<lparr>NBox := []\<rparr>))
     \<and> last_identified_match (fst (ISOWeek example_date)) (snd (ISOWeek example_date))
          (NBox (Document (ok_response (empty_page\<lparr>NBox := []\<rparr>)))) = None"
    by (simp add: ok_response_def empty_page_def last_identified_match_def)
  from DeleteReport_lookup_before_range_check
         [where n = 1 and env = "example_env [] example_entries" and s = example_session
            and date = example_date and w = example_start and ?w1.0 = w1 and ?w2.0 = w2
            and k = 1 and resp = "ok_response (empty_page\<lparr>NBox := []\<rparr>)"
            and reports = "[\<lparr>Seq = ''7'', Type = ''Betrieb'', Duration = ''01:30'', Text = ''hello''\<rparr>,
                     \<lparr>Seq = ''9'', Type = ''Schule'', Duration = ''02:00'', Text = ''world''\<rparr>]"]
       g c m
  have "DeleteReport 1 (example_env [] example_entries) example_session example_date (Some 1)
          example_start
        = Some (Some (Errorf ''no report found for week %d/%d''
                        [ArgInt (snd (ISOWeek example_date)),
                         ArgInt (fst (ISOWeek example_date))]), w2)"
    by simp
  then show "\<exists>w2. DeleteReport 1 (example_env [] example_entries) example_session example_date
                     (Some 1) example_start
           = Some (Some (Errorf ''no report found for week %d/%d'' [ArgInt 10, ArgInt 2024]), w2)"
    by (simp add: example_date_def)
next
  from example_GetReport [of two_tiles example_start] obtain w1 where
    g: "GetReport 1 (example_env two_tiles example_entries) example_session example_date False
          example_start
        = Some (Inr [\<lparr>Seq = ''7'', Type = ''Betrieb'', Duration = ''01:30'', Text = ''hello''\<rparr>,
                     \<lparr>Seq = ''9'', Type = ''Schule'', Duration = ''02:00'', Text = ''world''\<rparr>], w1)"
    by blast
  from example_GetReportWeekID [of example_entries w1] obtain w2 where
    l: "GetReportWeekID 1 (example_env two_tiles example_entries) example_session example_date w1
        = Some (Inr ''222'', w2)"
    by blast
  from DeleteReport_after_lookup [OF g _ l, of "Some 5"] have
    d: "DeleteReport 1 (example_env two_tiles example_entries) example_session example_date
          (Some 5) example_start
        = Some (Some (Errorf ''invalid entry number: %d'' [ArgInt 5]), w2)"
    by simp
  from DeleteReport_lookup_before_range_check
         [where n = 1 and env = "example_env two_tiles example_entries" and s = example_session
            and date = example_date and w = example_start and k = 5 and args = "[ArgInt 5]"
            and w' = w2] d
  have "\<exists>reports w1 weekID.
          GetReport 1 (example_env two_tiles example_entries) example_session example_date
            False example_start = Some (Inr reports, w1) \<and> reports \<noteq> []
          \<and> GetReportWeekID 1 (example_env two_tiles example_entries) example_session
              example_date w1 = Some (Inr weekID, w2)
          \<and> ((5::int) < 1 \<or> int (length reports) < 5) \<and> [ArgInt 5] = [ArgInt 5]"
    by blast
  with d show "\<exists>reports w1 weekID w'.
         DeleteReport 1 (example_env two_tiles example_entries) example_session example_date
           (Some 5) example_start
         = Some (Some (Errorf ''invalid entry number: %d'' [ArgInt 5]), w')
         \<and> GetReport 1 (example_env two_tiles example_entries) example_session example_date
             False example_start = Some (Inr reports, w1)
         \<and> GetReportWeekID 1 (example_env two_tiles example_entries) example_session
             example_date w1 = Some (Inr weekID, w')"
    by blast
qed

section \<open>The week lookup in WriteReport and DeleteReport\<close>



section \<open>Runs of the operations on the concrete inputs\<close>

lemma jar_SetCookies_Nil [simp]: "jar_SetCookies old [] = old"
  by (simp add: jar_SetCookies_def)











section \<open>The deletion requests of DeleteReport\<close>






lemma entriesToDelete_Nil [simp]: "entriesToDelete entryNumber [] = []"
  by (auto simp: entriesToDelete_def split: option.splits)










section \<open>One week lookup per call\<close>





section \<open>The encoding of the message in WriteReport\<close>













section \<open>The redirect policy of NewSession\<close>

lemma redirectBehavior_None:
  "redirectBehavior m resp = None \<Longrightarrow> \<not> followable_redirect resp"
  by (auto simp: redirectBehavior_def followable_redirect_def split: if_splits)

lemma do_loop_no_redirect_returned:
  assumes "\<forall>req via. checkRedirect c req via = None"
  shows "do_loop n env c ireq req reqs ib w = Some (Inr resp, w') \<Longrightarrow> \<not> followable_redirect resp"
proof (induction n arbitrary: req reqs ib w)
  case 0
  then show ?case by simp
next
  case (Suc n)
  obtain r1 w1 where s: "send env c req w = (r1, w1)" by (cases "send env c req w")
  show ?case
  proof (cases r1)
    case (Inl err)
    with Suc.prems s show ?thesis by simp
  next
    case (Inr resp1)
    show ?thesis
    proof (cases "redirectBehavior (Method req) resp1")
      case None
      with Suc.prems s Inr have "resp = resp1" by simp
      with None show ?thesis by (auto dest: redirectBehavior_None)
    next
      case (Some mb)
      obtain m b where mb: "mb = (m, b)" by (cases mb)
      show ?thesis
      proof (cases "Location resp1 = []")
        case True
        with Suc.prems s Inr Some mb have "resp = resp1" by simp
        with True show ?thesis by (simp add: followable_redirect_def)
      next
        case False
        show ?thesis
        proof (cases "url_Parse_ok env (Location resp1)")
          case False
          with Suc.prems s Inr Some mb \<open>Location resp1 \<noteq> []\<close> show ?thesis by simp
        next
          case True
          with Suc.prems s Inr Some mb \<open>Location resp1 \<noteq> []\<close> assms have
            "do_loop n env c ireq
               \<lparr>Method = m, URL = Location resp1, Header = hop_Header (Header ireq) (ib \<and> b), Cookies = [],
                  Body = (if ib \<and> b then Body ireq else []), Via = Suc (length reqs)\<rparr>
               (reqs @ [req]) (ib \<and> b) w1 = Some (Inr resp, w')"
            by (simp add: Let_def)
          then show ?thesis by (rule Suc.IH)
        qed
      qed
    qed
  qed
qed

lemma send_reply:
  "send env c req w = (r1, w1) \<Longrightarrow>
     \<exists>q. trace w1 = trace w @ [q] \<and> same_request q req
       \<and> (case remote env (trace w) q of
             NoReply \<Rightarrow> r1 = Inl TransportError
           | Reply resp \<Rightarrow> r1 = Inr resp)"
  by (auto simp: send_def Let_def same_request_def split: reply.splits option.splits)

lemma redirectBehavior_Some:
  "redirectBehavior m resp = Some mb \<Longrightarrow> followable_redirect resp = (Location resp \<noteq> [])"
  by (auto simp: redirectBehavior_def followable_redirect_def split: if_splits)

lemma do_loop_follows:
  assumes c: "\<forall>req via. checkRedirect c req via = None"
  shows "do_loop n env c ireq req reqs ib w = Some (r, w') \<Longrightarrow>
     \<exists>rs. trace w' = trace w @ rs \<and> rs \<noteq> [] \<and> URL (hd rs) = URL req \<and> Via (hd rs) = Via req
       \<and> (\<forall>pre q post resp.
             rs = pre @ q # post \<and> remote env (trace w @ pre) q = Reply resp
             \<and> followable_redirect resp \<and> url_Parse_ok env (Location resp)
             \<longrightarrow> post \<noteq> [] \<and> URL (hd post) = Location resp
                 \<and> Via (hd post) = Suc (length reqs + length pre))
       \<and> (case remote env (trace w @ butlast rs) (last rs) of
             NoReply \<Rightarrow> r = Inl TransportError
           | Reply resp \<Rightarrow>
               if followable_redirect resp
               then r = Inl (Errorf ''failed to parse Location header %q: %v''
                               [ArgStr (Location resp), ArgErr ParseError])
               else r = Inr resp)"
proof (induction n arbitrary: req reqs ib w)
  case 0
  then show ?case by simp
next
  case (Suc n)
  obtain r1 w1 where s: "send env c req w = (r1, w1)" by (cases "send env c req w")
  from send_reply [OF s] obtain q0 where
    q0: "trace w1 = trace w @ [q0]" "same_request q0 req"
        "case remote env (trace w) q0 of
           NoReply \<Rightarrow> r1 = Inl TransportError
         | Reply resp \<Rightarrow> r1 = Inr resp"
    by blast
  let ?followed = "\<exists>resp. remote env (trace w) q0 = Reply resp \<and> followable_redirect resp
                     \<and> url_Parse_ok env (Location resp)"
  show ?case
  proof (cases ?followed)
    case False
    have fin: "w' = w1 \<and> (case remote env (trace w) q0 of
             NoReply \<Rightarrow> r = Inl TransportError
           | Reply resp \<Rightarrow>
               if followable_redirect resp
               then r = Inl (Errorf ''failed to parse Location header %q: %v''
                               [ArgStr (Location resp), ArgErr ParseError])
               else r = Inr resp)"
    proof (cases "remote env (trace w) q0")
      case NoReply
      with q0(3) Suc.prems s show ?thesis by simp
    next
      case (Reply resp)
      with q0(3) have r1: "r1 = Inr resp" by simp
      show ?thesis
      proof (cases "redirectBehavior (Method req) resp")
        case None
        with Suc.prems s r1 Reply redirectBehavior_None [OF None] show ?thesis by simp
      next
        case (Some mb)
        obtain m b where mb: "mb = (m, b)" by (cases mb)
        from redirectBehavior_Some [OF Some] have
          f: "followable_redirect resp = (Location resp \<noteq> [])" .
        show ?thesis
        proof (cases "Location resp = []")
          case True
          with Suc.prems s r1 Reply Some mb f show ?thesis by simp
        next
          case nonempty: False
          with f False Reply have "\<not> url_Parse_ok env (Location resp)" by simp
          with Suc.prems s r1 Reply Some mb f nonempty show ?thesis by simp
        qed
      qed
    qed
    from False have
      "\<forall>pre q post resp.
             [q0] = pre @ q # post \<and> remote env (trace w @ pre) q = Reply resp
             \<and> followable_redirect resp \<and> url_Parse_ok env (Location resp)
             \<longrightarrow> post \<noteq> [] \<and> URL (hd post) = Location resp
                 \<and> Via (hd post) = Suc (length reqs + length pre)"
      by (auto simp: Cons_eq_append_conv)
    with fin q0 have
      "trace w' = trace w @ [q0] \<and> [q0] \<noteq> [] \<and> URL (hd [q0]) = URL req \<and> Via (hd [q0]) = Via req
       \<and> (\<forall>pre q post resp.
             [q0] = pre @ q # post \<and> remote env (trace w @ pre) q = Reply resp
             \<and> followable_redirect resp \<and> url_Parse_ok env (Location resp)
             \<longrightarrow> post \<noteq> [] \<and> URL (hd post) = Location resp
                 \<and> Via (hd post) = Suc (length reqs + length pre))
       \<and> (case remote env (trace w @ butlast [q0]) (last [q0]) of
             NoReply \<Rightarrow> r = Inl TransportError
           | Reply resp \<Rightarrow>
               if followable_redirect resp
               then r = Inl (Errorf ''failed to parse Location header %q: %v''
                               [ArgStr (Location resp), ArgErr ParseError])
               else r = Inr resp)"
      by (simp add: same_request_def)
    then show ?thesis by blast
  next
    case True
    then obtain resp where
      resp: "remote env (trace w) q0 = Reply resp" "followable_redirect resp"
            "url_Parse_ok env (Location resp)"
      by blast
    with q0(3) have r1: "r1 = Inr resp" by simp
    from resp(2) obtain m b where mb: "redirectBehavior (Method req) resp = Some (m, b)"
      by (auto simp: redirectBehavior_def followable_redirect_def)
    from resp(2) have loc: "Location resp \<noteq> []" by (simp add: followable_redirect_def)
    define nxt where "nxt = \<lparr>Method = m, URL = Location resp, Header = hop_Header (Header ireq) (ib \<and> b), Cookies = [],
                             Body = (if ib \<and> b then Body ireq else []), Via = Suc (length reqs)\<rparr>"
    from Suc.prems s r1 mb loc resp(3) c have
      "do_loop n env c ireq nxt (reqs @ [req]) (ib \<and> b) w1 = Some (r, w')"
      by (simp add: Let_def nxt_def)
    from Suc.IH [OF this] obtain rs where
      rs: "trace w' = trace w1 @ rs" "rs \<noteq> []" "URL (hd rs) = URL nxt" "Via (hd rs) = Via nxt"
          "\<forall>pre q post resp.
             rs = pre @ q # post \<and> remote env (trace w1 @ pre) q = Reply resp
             \<and> followable_redirect resp \<and> url_Parse_ok env (Location resp)
             \<longrightarrow> post \<noteq> [] \<and> URL (hd post) = Location resp
                 \<and> Via (hd post) = Suc (length (reqs @ [req]) + length pre)"
          "case remote env (trace w1 @ butlast rs) (last rs) of
             NoReply \<Rightarrow> r = Inl TransportError
           | Reply resp \<Rightarrow>
               if followable_redirect resp
               then r = Inl (Errorf ''failed to parse Location header %q: %v''
                               [ArgStr (Location resp), ArgErr ParseError])
               else r = Inr resp"
      by blast
    have step: "\<forall>pre q post resp'.
             q0 # rs = pre @ q # post \<and> remote env (trace w @ pre) q = Reply resp'
             \<and> followable_redirect resp' \<and> url_Parse_ok env (Location resp')
             \<longrightarrow> post \<noteq> [] \<and> URL (hd post) = Location resp'
                 \<and> Via (hd post) = Suc (length reqs + length pre)"
    proof (intro allI impI)
      fix pre q post resp'
      assume a: "q0 # rs = pre @ q # post \<and> remote env (trace w @ pre) q = Reply resp'
             \<and> followable_redirect resp' \<and> url_Parse_ok env (Location resp')"
      show "post \<noteq> [] \<and> URL (hd post) = Location resp'
                 \<and> Via (hd post) = Suc (length reqs + length pre)"
      proof (cases pre)
        case Nil
        with a have "q = q0" "post = rs" "resp' = resp" using resp(1) by simp_all
        with rs(2,3,4) Nil show ?thesis by (simp add: nxt_def)
      next
        case (Cons p pre')
        with a have "p = q0" "rs = pre' @ q # post" by simp_all
        moreover from a Cons \<open>p = q0\<close> q0(1) have "remote env (trace w1 @ pre') q = Reply resp'"
          by simp
        ultimately have "post \<noteq> [] \<and> URL (hd post) = Location resp'
                 \<and> Via (hd post) = Suc (length (reqs @ [req]) + length pre')"
          using rs(5) a by blast
        with Cons show ?thesis by simp
      qed
    qed
    from rs(2) q0(1) have "trace w @ butlast (q0 # rs) = trace w1 @ butlast rs"
      "last (q0 # rs) = last rs"
      by simp_all
    with rs(1,6) q0 step have
      "trace w' = trace w @ (q0 # rs) \<and> q0 # rs \<noteq> [] \<and> URL (hd (q0 # rs)) = URL req
       \<and> Via (hd (q0 # rs)) = Via req
       \<and> (\<forall>pre q post resp.
             q0 # rs = pre @ q # post \<and> remote env (trace w @ pre) q = Reply resp
             \<and> followable_redirect resp \<and> url_Parse_ok env (Location resp)
             \<longrightarrow> post \<noteq> [] \<and> URL (hd post) = Location resp
                 \<and> Via (hd post) = Suc (length reqs + length pre))
       \<and> (case remote env (trace w @ butlast (q0 # rs)) (last (q0 # rs)) of
             NoReply \<Rightarrow> r = Inl TransportError
           | Reply resp \<Rightarrow>
               if followable_redirect resp
               then r = Inl (Errorf ''failed to parse Location header %q: %v''
                               [ArgStr (Location resp), ArgErr ParseError])
               else r = Inr resp)"
      by (simp add: same_request_def)
    then show ?thesis by blast
  qed
qed

lemma do_loop_never_returns:
  assumes c: "\<forall>req via. checkRedirect c req via = None"
    and e: "\<forall>h q. \<exists>resp. remote env h q = Reply resp \<and> followable_redirect resp
                     \<and> url_Parse_ok env (Location resp)"
  shows "do_loop n env c ireq req reqs ib w = None"
proof (induction n arbitrary: req reqs ib w)
  case 0
  show ?case by simp
next
  case (Suc n)
  obtain r1 w1 where s: "send env c req w = (r1, w1)" by (cases "send env c req w")
  from send_reply [OF s] obtain q0 where
    q0: "case remote env (trace w) q0 of
           NoReply \<Rightarrow> r1 = Inl TransportError
         | Reply resp \<Rightarrow> r1 = Inr resp"
    by blast
  from e obtain resp where
    resp: "remote env (trace w) q0 = Reply resp" "followable_redirect resp"
          "url_Parse_ok env (Location resp)"
    by blast
  with q0 have r1: "r1 = Inr resp" by simp
  from resp(2) obtain m b where mb: "redirectBehavior (Method req) resp = Some (m, b)"
    by (auto simp: redirectBehavior_def followable_redirect_def)
  from resp(2) have loc: "Location resp \<noteq> []" by (simp add: followable_redirect_def)
  from s r1 mb loc resp(3) c Suc.IH show ?case
    by (simp add: Let_def)
qed

text \<open>
  C5, as the code has it. The client of a session created by \<open>NewSession\<close> has a cookie
  jar of its own: a new address, holding no cookie, that no session created in a world
  with another allocation counter has. Its redirect policy returns no error for any
  redirect, which tells the client to follow it. So in every call of this client that
  returns, each response that is a redirect with a \<open>Location\<close> that parses is followed by a
  request to that \<open>Location\<close>, whatever the number of requests before it, and the call
  returns the outcome of its last request: a transport error when there is no response,
  an error when the response is a redirect whose \<open>Location\<close> does not parse, and otherwise
  the response itself, which is no redirect with a \<open>Location\<close>. No redirect that can be
  followed ever reaches the operation that made the call, whether it called \<open>Do\<close>, \<open>Get\<close>
  or \<open>PostForm\<close>. Against a remote application that answers every request by such a
  redirect the call does not return, whatever the bound on the round trips: there is no
  limit on the number of redirects.
\<close>

theorem NewSession_follows_every_redirect:
  assumes "NewSession w = (s, w')"
  shows "Jar (client s) = Some (next_jar w)
         \<and> next_jar w' = Suc (next_jar w)
         \<and> jars w' (next_jar w) = []
         \<and> (\<forall>v. next_jar v \<noteq> next_jar w \<longrightarrow> Jar (client (fst (NewSession v))) \<noteq> Jar (client s))
         \<and> (\<forall>req via. checkRedirect (client s) req via = None)
         \<and> (\<forall>n env req v resp v'.
               client_Do n env (client s) req v = Some (Inr resp, v')
               \<longrightarrow> \<not> followable_redirect resp)
         \<and> (\<forall>n env u data v resp v'.
               client_Get n env (client s) u v = Some (Inr resp, v')
               \<or> client_PostForm n env (client s) u data v = Some (Inr resp, v')
               \<longrightarrow> \<not> followable_redirect resp)
         \<and> (\<forall>n env req v r v'.
               client_Do n env (client s) req v = Some (r, v')
               \<longrightarrow> (\<exists>rs. trace v' = trace v @ rs \<and> rs \<noteq> []
                      \<and> (\<forall>pre q post resp.
                            rs = pre @ q # post \<and> remote env (trace v @ pre) q = Reply resp
                            \<and> followable_redirect resp \<and> url_Parse_ok env (Location resp)
                            \<longrightarrow> post \<noteq> [] \<and> URL (hd post) = Location resp
                                \<and> Via (hd post) = Suc (length pre))
                      \<and> (case remote env (trace v @ butlast rs) (last rs) of
                            NoReply \<Rightarrow> r = Inl TransportError
                          | Reply resp \<Rightarrow>
                              if followable_redirect resp
                              then \<not> url_Parse_ok env (Location resp)
                                   \<and> r = Inl (Errorf ''failed to parse Location header %q: %v''
                                               [ArgStr (Location resp), ArgErr ParseError])
                              else r = Inr resp)))
         \<and> (\<forall>n env req v.
               (\<forall>h q. \<exists>resp. remote env h q = Reply resp \<and> followable_redirect resp
                          \<and> url_Parse_ok env (Location resp))
               \<longrightarrow> client_Do n env (client s) req v = None)"
proof -
  from assms have s: "s = \<lparr>client = \<lparr>Jar = Some (next_jar w), CheckRedirect = Some (\<lambda>req via. None)\<rparr>\<rparr>"
    and w': "w' = w\<lparr>jars := (jars w)(next_jar w := []), next_jar := Suc (next_jar w)\<rparr>"
    by (auto simp: NewSession_def Let_def)
  from s have c: "\<forall>req via. checkRedirect (client s) req via = None"
    by (simp add: checkRedirect_def)
  have a: "\<forall>n env req v resp v'.
               client_Do n env (client s) req v = Some (Inr resp, v')
               \<longrightarrow> \<not> followable_redirect resp"
    unfolding client_Do_def using do_loop_no_redirect_returned [OF c] by blast
  have a': "\<forall>n env u data v resp v'.
               client_Get n env (client s) u v = Some (Inr resp, v')
               \<or> client_PostForm n env (client s) u data v = Some (Inr resp, v')
               \<longrightarrow> \<not> followable_redirect resp"
  proof (intro allI impI)
    fix n env u data v resp v'
    assume "client_Get n env (client s) u v = Some (Inr resp, v')
               \<or> client_PostForm n env (client s) u data v = Some (Inr resp, v')"
    then obtain req where "client_Do n env (client s) req v = Some (Inr resp, v')"
      by (auto simp: client_Get_def client_PostForm_def split: sum.splits)
    with a show "\<not> followable_redirect resp" by blast
  qed
  have b: "\<forall>n env req v r v'.
               client_Do n env (client s) req v = Some (r, v')
               \<longrightarrow> (\<exists>rs. trace v' = trace v @ rs \<and> rs \<noteq> []
                      \<and> (\<forall>pre q post resp.
                            rs = pre @ q # post \<and> remote env (trace v @ pre) q = Reply resp
                            \<and> followable_redirect resp \<and> url_Parse_ok env (Location resp)
                            \<longrightarrow> post \<noteq> [] \<and> URL (hd post) = Location resp
                                \<and> Via (hd post) = Suc (length pre))
                      \<and> (case remote env (trace v @ butlast rs) (last rs) of
                            NoReply \<Rightarrow> r = Inl TransportError
                          | Reply resp \<Rightarrow>
                              if followable_redirect resp
                              then \<not> url_Parse_ok env (Location resp)
                                   \<and> r = Inl (Errorf ''failed to parse Location header %q: %v''
                                               [ArgStr (Location resp), ArgErr ParseError])
                              else r = Inr resp))"
  proof (intro allI impI)
    fix n env req v r v'
    assume "client_Do n env (client s) req v = Some (r, v')"
    then have "do_loop n env (client s) req req [] True v = Some (r, v')"
      by (simp add: client_Do_def)
    from do_loop_follows [OF c this] obtain rs where
      rs: "trace v' = trace v @ rs" "rs \<noteq> []"
          "\<forall>pre q post resp.
             rs = pre @ q # post \<and> remote env (trace v @ pre) q = Reply resp
             \<and> followable_redirect resp \<and> url_Parse_ok env (Location resp)
             \<longrightarrow> post \<noteq> [] \<and> URL (hd post) = Location resp
                 \<and> Via (hd post) = Suc (length ([]::Request list) + length pre)"
          "case remote env (trace v @ butlast rs) (last rs) of
             NoReply \<Rightarrow> r = Inl TransportError
           | Reply resp \<Rightarrow>
               if followable_redirect resp
               then r = Inl (Errorf ''failed to parse Location header %q: %v''
                               [ArgStr (Location resp), ArgErr ParseError])
               else r = Inr resp"
      by blast
    from rs(2) have dec: "rs = butlast rs @ last rs # []" by simp
    have "\<not> url_Parse_ok env (Location resp)"
      if "remote env (trace v @ butlast rs) (last rs) = Reply resp" "followable_redirect resp"
      for resp
    proof
      assume "url_Parse_ok env (Location resp)"
      with rs(3) dec that have "([]::Request list) \<noteq> []" by blast
      then show False by simp
    qed
    with rs(4) have
      "case remote env (trace v @ butlast rs) (last rs) of
             NoReply \<Rightarrow> r = Inl TransportError
           | Reply resp \<Rightarrow>
               if followable_redirect resp
               then \<not> url_Parse_ok env (Location resp)
                    \<and> r = Inl (Errorf ''failed to parse Location header %q: %v''
                               [ArgStr (Location resp), ArgErr ParseError])
               else r = Inr resp"
      by (auto split: reply.splits)
    with rs(1,2,3) show "\<exists>rs. trace v' = trace v @ rs \<and> rs \<noteq> []
                      \<and> (\<forall>pre q post resp.
                            rs = pre @ q # post \<and> remote env (trace v @ pre) q = Reply resp
                            \<and> followable_redirect resp \<and> url_Parse_ok env (Location resp)
                            \<longrightarrow> post \<noteq> [] \<and> URL (hd post) = Location resp
                                \<and> Via (hd post) = Suc (length pre))
                      \<and> (case remote env (trace v @ butlast rs) (last rs) of
                            NoReply \<Rightarrow> r = Inl TransportError
                          | Reply resp \<Rightarrow>
                              if followable_redirect resp
                              then \<not> url_Parse_ok env (Location resp)
                                   \<and> r = Inl (Errorf ''failed to parse Location header %q: %v''
                                               [ArgStr (Location resp), ArgErr ParseError])
                              else r = Inr resp)"
      by (intro exI [of _ rs]) simp
  qed
  have d: "\<forall>n env req v.
               (\<forall>h q. \<exists>resp. remote env h q = Reply resp \<and> followable_redirect resp
                          \<and> url_Parse_ok env (Location resp))
               \<longrightarrow> client_Do n env (client s) req v = None"
    unfolding client_Do_def using do_loop_never_returns [OF c] by blast
  from s w' have j: "Jar (client s) = Some (next_jar w)
         \<and> next_jar w' = Suc (next_jar w)
         \<and> jars w' (next_jar w) = []
         \<and> (\<forall>v. next_jar v \<noteq> next_jar w \<longrightarrow> Jar (client (fst (NewSession v))) \<noteq> Jar (client s))"
    by (simp add: NewSession_def Let_def)
  from j c a a' b d show ?thesis by (intro conjI) blast+
qed

lemma moved_run:
  "map_option (\<lambda>p. (fst p, map (\<lambda>q. (Method q, URL q, Via q)) (sent example_start (snd p))))
     (client_Do 2 moved_env (client example_session) day_request example_start)
   = Some (Inr (ok_response empty_page),
           [(GET, day_URL ''20240304'', 0), (GET, baseURL @ ''/Login.aspx'', 1)])"
  by code_simp

lemma bad_location_run:
  "map_option (\<lambda>p. (fst p, map (\<lambda>q. (Method q, URL q, Via q)) (sent example_start (snd p))))
     (client_Do 2 bad_location_env (client example_session) day_request example_start)
   = Some (Inl (Errorf ''failed to parse Location header %q: %v'' [ArgStr '':'', ArgErr ParseError]),
           [(GET, day_URL ''20240304'', 0)])"
  by code_simp

theorem NewSession_follows_every_redirect_witness:
  "Jar (client example_session) = Some 0
   \<and> checkRedirect (client example_session) day_request [] = None
   \<and> (\<exists>v'. client_Do 2 moved_env (client example_session) day_request example_start
              = Some (Inr (ok_response empty_page), v')
         \<and> map (\<lambda>q. (Method q, URL q, Via q)) (sent example_start v')
             = [(GET, day_URL ''20240304'', 0), (GET, baseURL @ ''/Login.aspx'', 1)])
   \<and> \<not> followable_redirect (ok_response empty_page)
   \<and> (\<exists>v'. client_Do 2 bad_location_env (client example_session) day_request example_start
              = Some (Inl (Errorf ''failed to parse Location header %q: %v''
                             [ArgStr '':'', ArgErr ParseError]), v')
         \<and> map (\<lambda>q. (Method q, URL q, Via q)) (sent example_start v')
             = [(GET, day_URL ''20240304'', 0)])
   \<and> client_Do 12 always_moved_env (client example_session) day_request example_start = None"
proof -
  have n: "NewSession example_world = (example_session, example_start)"
    by (simp add: example_session_def example_start_def)
  note t = NewSession_follows_every_redirect [OF n]
  from moved_run obtain v' where
    d: "client_Do 2 moved_env (client example_session) day_request example_start
          = Some (Inr (ok_response empty_page), v')"
       "map (\<lambda>q. (Method q, URL q, Via q)) (sent example_start v')
             = [(GET, day_URL ''20240304'', 0), (GET, baseURL @ ''/Login.aspx'', 1)]"
    by (cases "client_Do 2 moved_env (client example_session) day_request example_start") auto
  from bad_location_run obtain v'' where
    e: "client_Do 2 bad_location_env (client example_session) day_request example_start
              = Some (Inl (Errorf ''failed to parse Location header %q: %v''
                             [ArgStr '':'', ArgErr ParseError]), v'')"
       "map (\<lambda>q. (Method q, URL q, Via q)) (sent example_start v'')
             = [(GET, day_URL ''20240304'', 0)]"
    by (cases "client_Do 2 bad_location_env (client example_session) day_request example_start") auto
  from t have j: "Jar (client example_session) = Some (next_jar example_world)"
    by (elim conjE)
  from t have p: "\<forall>req via. checkRedirect (client example_session) req via = None"
    by (elim conjE)
  from t have f: "\<forall>n env req v resp v'.
                    client_Do n env (client example_session) req v = Some (Inr resp, v')
                    \<longrightarrow> \<not> followable_redirect resp"
    by (elim conjE)
  from t have l: "\<forall>n env req v.
                    (\<forall>h q. \<exists>resp. remote env h q = Reply resp \<and> followable_redirect resp
                               \<and> url_Parse_ok env (Location resp))
                    \<longrightarrow> client_Do n env (client example_session) req v = None"
    by (elim conjE)
  from f d(1) have "\<not> followable_redirect (ok_response empty_page)" by blast
  moreover from j have "Jar (client example_session) = Some 0"
    by (simp add: example_world_def)
  moreover from p have "checkRedirect (client example_session) day_request [] = None" by blast
  moreover have "\<forall>h q. \<exists>resp. remote always_moved_env h q = Reply resp \<and> followable_redirect resp
                          \<and> url_Parse_ok always_moved_env (Location resp)"
    by (simp add: always_moved_env_def always_moved_site_def followable_redirect_def baseURL_def)
  with l have "client_Do 12 always_moved_env (client example_session) day_request example_start = None"
    by blast
  moreover have
    "\<exists>v'. client_Do 2 moved_env (client example_session) day_request example_start
              = Some (Inr (ok_response empty_page), v')
         \<and> map (\<lambda>q. (Method q, URL q, Via q)) (sent example_start v')
             = [(GET, day_URL ''20240304'', 0), (GET, baseURL @ ''/Login.aspx'', 1)]"
    by (intro exI [of _ v'] conjI d)
  moreover have
    "\<exists>v'. client_Do 2 bad_location_env (client example_session) day_request example_start
              = Some (Inl (Errorf ''failed to parse Location header %q: %v''
                             [ArgStr '':'', ArgErr ParseError]), v')
         \<and> map (\<lambda>q. (Method q, URL q, Via q)) (sent example_start v')
             = [(GET, day_URL ''20240304'', 0)]"
    by (intro exI [of _ v''] conjI e)
  ultimately show ?thesis by (intro conjI)
qed

text \<open>
  C5 as stated fails: the remote application answers the request for the report page by
  a redirect to the login page. The client of a new session follows it on its own, and
  \<open>GetReport\<close> returns the (empty) entry list it reads from the login page, with no error:
  two requests were sent, and the redirect never reached the operation.
\<close>

theorem NewSession_redirect_counterexample:
  "map_option (\<lambda>p. (fst p, map (\<lambda>q. (Method q, URL q, Via q)) (sent example_start (snd p))))
     (GetReport 2 moved_env (fst (NewSession example_world)) example_date False
        (snd (NewSession example_world)))
   = Some (Inr [], [(GET, day_URL ''20240304'', 0), (GET, baseURL @ ''/Login.aspx'', 1)])"
  by code_simp

section \<open>The default session in the service layer\<close>

lemma Service_WriteReport_session_id_omitted:
  "arg_string args ''session_id'' = None \<Longrightarrow>
     Service_WriteReport n env svc args w = Some (Inl (Errorf ''session_id is required'' []), w)"
  by (simp add: Service_WriteReport_def)

text \<open>
  C6 at a concrete input. The service is created with credentials the remote
  application accepts, so the default session exists under the identifier \<open>default\<close>.
  Called without \<open>session_id\<close>, \<open>GetSubjects\<close> uses the default session and returns the
  subjects; \<open>WriteReport\<close>, \<open>DeleteReport\<close>, \<open>GetWeekID\<close> and \<open>IsLoggedIn\<close> fail with
  \<open>session_id is required\<close>. With \<open>session_id\<close> present and empty, \<open>IsLoggedIn\<close> does use the
  default session.
\<close>

theorem Service_WriteReport_ignores_default_session:
  "(case NewAzubiheftService 1 login_env ''azubi'' ''secret'' example_world of
      None \<Rightarrow> False
    | Some (svc, w) \<Rightarrow>
        defaultSessionID svc = ''default''
        \<and> (case sessions svc ''default'' of None \<Rightarrow> False | Some session \<Rightarrow> True)
        \<and> map_option fst (Service_GetSubjects 1 login_env svc Map.empty w)
            = Some (Inr (''Subjects: [{ID:1 Name:Betrieb} {ID:2 Name:Schule} {ID:3 Name:''
                         @ [CHR 0xC3, CHR 0x9C] @ ''BA} {ID:4 Name:Urlaub} {ID:5 Name:Feiertag} ''
                         @ ''{ID:6 Name:Arbeitsunf'' @ [CHR 0xC3, CHR 0xA4] @ ''hig} {ID:7 Name:Frei} ''
                         @ ''{ID:1700000000 Name:Projekt}]''))
        \<and> map_option fst (Service_WriteReport 1 login_env svc write_arguments w)
            = Some (Inl (Errorf ''session_id is required'' []))
        \<and> map_option fst (Service_DeleteReport 1 login_env svc
                             [''date'' \<mapsto> JString ''2024-03-04''] w)
            = Some (Inl (Errorf ''session_id is required'' []))
        \<and> map_option fst (Service_GetWeekID 1 login_env svc
                             [''date'' \<mapsto> JString ''2024-03-04''] w)
            = Some (Inl (Errorf ''session_id is required'' []))
        \<and> map_option fst (Service_IsLoggedIn 1 login_env svc Map.empty w)
            = Some (Inl (Errorf ''session_id is required'' []))
        \<and> map_option fst (Service_IsLoggedIn 1 login_env svc [''session_id'' \<mapsto> JString []] w)
            = Some (Inr ''Logged in: true''))"
  by code_simp

end
